theory Spec2Isabelle
  imports Complex_Main
begin

section \<open>Shared data model\<close>

text \<open>
  The boundary communication code of AthenaK (\<^verbatim>\<open>bvals.cpp\<close>,
  \<^verbatim>\<open>orbital_advection.cpp\<close>) and the radiation update
  (\<^verbatim>\<open>radiation_femn_update.cpp\<close>) are embedded as functions on explicit state.
  C++ \<^verbatim>\<open>int\<close> indices are \<^typ>\<open>int\<close> (no index computation of the modelled code comes
  near the 32-bit range; the one conversion of a \<^verbatim>\<open>Real\<close> to \<^verbatim>\<open>int\<close> carries its range
  condition). \<^verbatim>\<open>Real\<close> is \<^verbatim>\<open>double\<close>: the shift distance, the integer offset and the
  fractional offset of the orbital advection kernels are computed with the rounding of
  every operation; the remaining arithmetic (the fluxes, the remap and the constrained
  transport update) is idealised as exact arithmetic on \<^typ>\<open>real\<close>. Kokkos views and STL
  vectors are functions of their index tuple; where a kernel computes an index into a
  scratch array or a receive buffer from the shift, the extents are part of the model.
  Parallel loops are run in ascending index order, one legal schedule of the kernel.
\<close>

datatype TaskStatus = fail | complete | incomplete

datatype BoundaryCommStatus = undef | waiting | sent | received

text \<open>A request handle: null, or the posted operation (data size, peer rank, tag).\<close>

datatype MPI_Request = MPI_REQUEST_NULL | Irecv int int int | Isend int int int

record NeighborBlock =
  gid :: int
  lev :: int
  rank :: int
  dest :: int

record RegionIndcs =
  ng :: int
  nx1 :: int
  nx2 :: int
  nx3 :: int
  is' :: int
  ie :: int
  js :: int
  je :: int
  ks :: int
  ke :: int

record RegionSize =
  x1min :: real
  x1max :: real
  x2min :: real
  x2max :: real
  dx1 :: real
  dx2 :: real
  dx3 :: real

text \<open>
  What the functions read through \<^verbatim>\<open>pmy_pack\<close>, \<^verbatim>\<open>pmy_pack->pmb\<close>,
  \<^verbatim>\<open>pmy_pack->pmesh\<close> and \<^verbatim>\<open>global_variable\<close>. The build option
  \<^verbatim>\<open>MPI_PARALLEL_ENABLED\<close> is a field, so that both builds are covered. The tag
  functions and the cell position functions are declared in headers that are not part of
  the sources; they are fields as well.
\<close>

record MeshBlockPack =
  nmb_thispack :: int
  nnghbr :: int
  nghbr :: "int \<Rightarrow> int \<Rightarrow> NeighborBlock"
  mb_gid :: "int \<Rightarrow> int"
  mb_lev :: "int \<Rightarrow> int"
  mb_size :: "int \<Rightarrow> RegionSize"
  mb_indcs :: RegionIndcs
  dt :: real
  multi_d :: bool
  three_d :: bool
  gids_eachrank :: "int \<Rightarrow> int"
  my_rank :: int
  MPI_PARALLEL_ENABLED :: bool
  CreateMPITag :: "int \<Rightarrow> int \<Rightarrow> int"
  CreateBvals_MPI_Tag :: "int \<Rightarrow> int \<Rightarrow> int"
  CellCenterX :: "int \<Rightarrow> int \<Rightarrow> real \<Rightarrow> real \<Rightarrow> real"
  LeftEdgeX :: "int \<Rightarrow> int \<Rightarrow> real \<Rightarrow> real \<Rightarrow> real"

text \<open>
  The message transport as the code sees it: for the request of block \<open>m\<close> and buffer
  \<open>n\<close>, whether the call returns \<^verbatim>\<open>MPI_SUCCESS\<close>, and for a test the completion flag
  it reports.
\<close>

record Transport =
  irecv_success :: "int \<Rightarrow> int \<Rightarrow> bool"
  isend_success :: "int \<Rightarrow> int \<Rightarrow> bool"
  wait_success :: "int \<Rightarrow> int \<Rightarrow> bool"
  test_success :: "int \<Rightarrow> int \<Rightarrow> bool"
  test_flag :: "int \<Rightarrow> int \<Rightarrow> bool"

text \<open>A step either returns a status and the state it leaves, or ends the process
  (\<^verbatim>\<open>std::exit(EXIT_FAILURE)\<close>), or has no defined behaviour (an access outside an array, a
  conversion to \<^verbatim>\<open>int\<close> of a value outside its range).\<close>

datatype 'a outcome = Exited | Undefined | Returned TaskStatus 'a

section \<open>bvals.cpp\<close>

record BoundaryBuffer =
  isame_ndat :: int
  icoar_ndat :: int
  ifine_ndat :: int
  vars_stat :: "int \<Rightarrow> BoundaryCommStatus"
  vars_req :: "int \<Rightarrow> MPI_Request"

text \<open>The loop nest \<^verbatim>\<open>for m in [0,nmb) for n in [0,nnghbr)\<close> of the host functions.\<close>

definition mb_nghbr_pairs :: "MeshBlockPack \<Rightarrow> (int \<times> int) list" where
  "mb_nghbr_pairs P = List.product [0..nmb_thispack P - 1] [0..nnghbr P - 1]"

text \<open>
  One iteration of the loop body of \<^verbatim>\<open>BoundaryValues::InitRecv\<close>. The state is the flag
  \<^verbatim>\<open>no_errors\<close> and the array \<^verbatim>\<open>recv_buf\<close>. The request handle is recorded when the
  receive is posted; the status flag is set outside the MPI conditional.
\<close>

definition InitRecv_body ::
  "MeshBlockPack \<Rightarrow> Transport \<Rightarrow> int \<Rightarrow> int \<times> int \<Rightarrow>
   bool \<times> (int \<Rightarrow> BoundaryBuffer) \<Rightarrow> bool \<times> (int \<Rightarrow> BoundaryBuffer)" where
  "InitRecv_body P T nvars mn st =
    (case mn of (m, n) \<Rightarrow> case st of (no_errors, recv_buf) \<Rightarrow>
      if gid (nghbr P m n) \<ge> 0 then
        let drank = rank (nghbr P m n);
            posted =
              (if MPI_PARALLEL_ENABLED P \<and> drank \<noteq> my_rank P then
                 let tag = CreateMPITag P m n;
                     data_size =
                       (if lev (nghbr P m n) < mb_lev P m then nvars * icoar_ndat (recv_buf n)
                        else if lev (nghbr P m n) = mb_lev P m then nvars * isame_ndat (recv_buf n)
                        else nvars * ifine_ndat (recv_buf n));
                     rb = recv_buf(n := (recv_buf n)
                            \<lparr>vars_req := (vars_req (recv_buf n))(m := Irecv data_size drank tag)\<rparr>)
                 in (if irecv_success T m n then no_errors else False, rb)
               else (no_errors, recv_buf))
        in (fst posted,
            (snd posted)(n := (snd posted n)
               \<lparr>vars_stat := (vars_stat (snd posted n))(m := waiting)\<rparr>))
      else st)"

definition InitRecv ::
  "MeshBlockPack \<Rightarrow> Transport \<Rightarrow> int \<Rightarrow> (int \<Rightarrow> BoundaryBuffer) \<Rightarrow>
   TaskStatus \<times> (int \<Rightarrow> BoundaryBuffer)" where
  "InitRecv P T nvars recv_buf =
    (let r = fold (InitRecv_body P T nvars) (mb_nghbr_pairs P) (True, recv_buf)
     in (if fst r then complete else fail, snd r))"

text \<open>
  \<^verbatim>\<open>ClearRecv\<close> and \<^verbatim>\<open>ClearSend\<close> wait on the request of every neighbour on another
  rank. The model returns the status and the requests waited on, in order.
\<close>

definition Clear_body ::
  "MeshBlockPack \<Rightarrow> Transport \<Rightarrow> int \<times> int \<Rightarrow>
   bool \<times> (int \<times> int) list \<Rightarrow> bool \<times> (int \<times> int) list" where
  "Clear_body P T mn st =
    (case mn of (m, n) \<Rightarrow> case st of (no_errors, waited) \<Rightarrow>
      if gid (nghbr P m n) \<ge> 0 \<and> rank (nghbr P m n) \<noteq> my_rank P then
        (if wait_success T m n then no_errors else False, waited @ [(m, n)])
      else st)"

definition ClearSend :: "MeshBlockPack \<Rightarrow> Transport \<Rightarrow> TaskStatus \<times> (int \<times> int) list" where
  "ClearSend P T =
    (let r = (if MPI_PARALLEL_ENABLED P
              then fold (Clear_body P T) (mb_nghbr_pairs P) (True, [])
              else (True, []))
     in (if fst r then complete else fail, snd r))"

definition ClearRecv :: "MeshBlockPack \<Rightarrow> Transport \<Rightarrow> TaskStatus \<times> (int \<times> int) list" where
  "ClearRecv P T =
    (let r = (if MPI_PARALLEL_ENABLED P
              then fold (Clear_body P T) (mb_nghbr_pairs P) (True, [])
              else (True, []))
     in (if fst r then complete else fail, snd r))"

text \<open>The receives that \<^verbatim>\<open>InitRecv\<close> registers: existing neighbours on another rank.\<close>

definition remote_nghbr :: "MeshBlockPack \<Rightarrow> int \<Rightarrow> int \<Rightarrow> bool" where
  "remote_nghbr P m n \<longleftrightarrow> gid (nghbr P m n) \<ge> 0 \<and> rank (nghbr P m n) \<noteq> my_rank P"

text \<open>
  The argument tuples with which \<^verbatim>\<open>InitializeBuffers\<close> calls \<^verbatim>\<open>NeighborIndx\<close>, in the order
  of its loops: \<open>(i, j, k, n1, n2)\<close> for \<^verbatim>\<open>NeighborIndx(i,j,k,n1,n2)\<close>. The increment of
  \<^verbatim>\<open>indx\<close> at the end of each loop body acts on a variable that is declared anew in the next
  iteration, so every buffer index is the value \<^verbatim>\<open>NeighborIndx\<close> returns.
\<close>

definition x1face_args :: "int \<Rightarrow> int \<Rightarrow> (int \<times> int \<times> int \<times> int \<times> int) list" where
  "x1face_args nfy nfz = [(n, 0, 0, fy, fz). n \<leftarrow> [-1, 1], fz \<leftarrow> [0..nfz - 1], fy \<leftarrow> [0..nfy - 1]]"

definition x2face_args :: "int \<Rightarrow> int \<Rightarrow> (int \<times> int \<times> int \<times> int \<times> int) list" where
  "x2face_args nfx nfz = [(0, m, 0, fx, fz). m \<leftarrow> [-1, 1], fz \<leftarrow> [0..nfz - 1], fx \<leftarrow> [0..nfx - 1]]"

definition x1x2edge_args :: "int \<Rightarrow> (int \<times> int \<times> int \<times> int \<times> int) list" where
  "x1x2edge_args nfz = [(n, m, 0, fz, 0). m \<leftarrow> [-1, 1], n \<leftarrow> [-1, 1], fz \<leftarrow> [0..nfz - 1]]"

definition x3face_args :: "int \<Rightarrow> int \<Rightarrow> (int \<times> int \<times> int \<times> int \<times> int) list" where
  "x3face_args nfx nfy = [(0, 0, l, fx, fy). l \<leftarrow> [-1, 1], fy \<leftarrow> [0..nfy - 1], fx \<leftarrow> [0..nfx - 1]]"

definition x3x1edge_args :: "int \<Rightarrow> (int \<times> int \<times> int \<times> int \<times> int) list" where
  "x3x1edge_args nfy = [(n, 0, l, fy, 0). l \<leftarrow> [-1, 1], n \<leftarrow> [-1, 1], fy \<leftarrow> [0..nfy - 1]]"

definition x2x3edge_args :: "int \<Rightarrow> (int \<times> int \<times> int \<times> int \<times> int) list" where
  "x2x3edge_args nfx = [(0, m, l, fx, 0). l \<leftarrow> [-1, 1], m \<leftarrow> [-1, 1], fx \<leftarrow> [0..nfx - 1]]"

definition corner_args :: "(int \<times> int \<times> int \<times> int \<times> int) list" where
  "corner_args = [(n, m, l, 0, 0). l \<leftarrow> [-1, 1], m \<leftarrow> [-1, 1], n \<leftarrow> [-1, 1]]"

definition InitializeBuffers_args ::
  "bool \<Rightarrow> bool \<Rightarrow> bool \<Rightarrow> (int \<times> int \<times> int \<times> int \<times> int) list" where
  "InitializeBuffers_args multilevel multid threed =
    (let nfx = (if multilevel then 2 else 1);
         nfy = (if multilevel \<and> multid then 2 else 1);
         nfz = (if multilevel \<and> threed then 2 else 1)
     in x1face_args nfy nfz
        @ (if multid then x2face_args nfx nfz @ x1x2edge_args nfz else [])
        @ (if threed then x3face_args nfx nfy @ x3x1edge_args nfy @ x2x3edge_args nfx @ corner_args
           else []))"

text \<open>
  Modelled from the spec: \<^verbatim>\<open>MeshBlock::NeighborIndx\<close>, which is declared in the mesh headers
  and is not part of the sources. The spec fixes the enumeration order x1-faces, x2-faces,
  x1x2-edges, x3-faces, x3x1-edges, x2x3-edges, corners; the comments of
  \<^verbatim>\<open>InitializeBuffers\<close> give each category eight slots starting at 0, 8, 16, 24, 32, 40
  and 48. Within a category the slot is the position of the argument tuple in the loop nest
  of \<^verbatim>\<open>InitializeBuffers\<close>: the outer offset counts 4, the next offset or sub-face 2, the
  innermost 1.
\<close>

definition NeighborIndx :: "int \<Rightarrow> int \<Rightarrow> int \<Rightarrow> int \<Rightarrow> int \<Rightarrow> int" where
  "NeighborIndx i j k n1 n2 =
    (if k = 0 \<and> j = 0 then 4 * ((1 + i) div 2) + 2 * n2 + n1
     else if k = 0 \<and> i = 0 then 8 + 4 * ((1 + j) div 2) + 2 * n2 + n1
     else if k = 0 then 16 + 4 * ((1 + j) div 2) + 2 * ((1 + i) div 2) + n1
     else if j = 0 \<and> i = 0 then 24 + 4 * ((1 + k) div 2) + 2 * n2 + n1
     else if j = 0 then 32 + 4 * ((1 + k) div 2) + 2 * ((1 + i) div 2) + n1
     else if i = 0 then 40 + 4 * ((1 + k) div 2) + 2 * ((1 + j) div 2) + n1
     else 48 + 4 * ((1 + k) div 2) + 2 * ((1 + j) div 2) + (1 + i) div 2)"

definition NeighborIndx_of :: "int \<times> int \<times> int \<times> int \<times> int \<Rightarrow> int" where
  "NeighborIndx_of a = (case a of (i, j, k, n1, n2) \<Rightarrow> NeighborIndx i j k n1 n2)"

section \<open>\<^verbatim>\<open>radiation_femn_update.cpp\<close>\<close>

text \<open>
  \<^verbatim>\<open>RadiationFEMN::ExpRKUpdate\<close> launches one kernel over blocks, species-energy pairs and
  cells. The kernel body computes the metric, the right-hand side and the Ricci rotation
  coefficients in local variables, prints them, and then calls
  \<^verbatim>\<open>exit(EXIT_FAILURE)\<close> (line 451); no statement before that call branches, returns or
  writes to \<^verbatim>\<open>f0\<close>. The matrix inversion and the assignment to \<^verbatim>\<open>f0\<close> come after the call.
  So an iteration of the kernel ends the process and leaves \<^verbatim>\<open>f0\<close> as it was.
\<close>

definition ExpRKUpdate_space :: "MeshBlockPack \<Rightarrow> int \<Rightarrow> (int \<times> int \<times> int \<times> int \<times> int) list" where
  "ExpRKUpdate_space P num_species_energy =
    List.product [0..nmb_thispack P - 1] (List.product [0..num_species_energy - 1]
      (List.product [ks (mb_indcs P)..ke (mb_indcs P)]
        (List.product [js (mb_indcs P)..je (mb_indcs P)] [is' (mb_indcs P)..ie (mb_indcs P)])))"

definition ExpRKUpdate_kernel :: "int \<times> int \<times> int \<times> int \<times> int \<Rightarrow> 'f \<Rightarrow> 'f outcome" where
  "ExpRKUpdate_kernel idx f0 = Exited"

fun run_kernel :: "('i \<Rightarrow> 'f \<Rightarrow> 'f outcome) \<Rightarrow> 'i list \<Rightarrow> 'f \<Rightarrow> 'f outcome" where
  "run_kernel body [] f = Returned complete f"
| "run_kernel body (x # xs) f =
    (case body x f of Exited \<Rightarrow> Exited | Undefined \<Rightarrow> Undefined
     | Returned st f' \<Rightarrow> run_kernel body xs f')"

definition ExpRKUpdate :: "MeshBlockPack \<Rightarrow> int \<Rightarrow> int \<Rightarrow> 'f \<Rightarrow> 'f outcome" where
  "ExpRKUpdate P num_species num_energy_bins f0 =
    (let num_species_energy = num_species * num_energy_bins
     in run_kernel ExpRKUpdate_kernel (ExpRKUpdate_space P num_species_energy) f0)"

section \<open>\<^verbatim>\<open>orbital_advection.cpp\<close>\<close>

type_synonym idx4 = "int \<times> int \<times> int \<times> int"
type_synonym idx5 = "int \<times> int \<times> int \<times> int \<times> int"

datatype ReconstructionMethod = dc | plm | ppm4 | ppmx | wenoz

text \<open>The parameters of the \<^verbatim>\<open>ShearingBox\<close> object, and its two pairs of buffers. The
  buffers are allocated in the constructor, which is not part of the sources; the extents of
  the array \<^verbatim>\<open>vars\<close> are a field.\<close>

record ShearingBox =
  qshear :: real
  omega0 :: real
  maxjshift :: int

record ShearingBoxBuffer =
  vars :: "idx5 \<Rightarrow> real"
  flds :: "idx5 \<Rightarrow> real"
  vars_extent :: idx5
  vars_size :: int
  flds_size :: int
  vars_req_orb :: "int \<Rightarrow> MPI_Request"
  flds_req_orb :: "int \<Rightarrow> MPI_Request"

record OrbBuffers =
  sendbuf_orb :: "int \<Rightarrow> ShearingBoxBuffer"
  recvbuf_orb :: "int \<Rightarrow> ShearingBoxBuffer"

text \<open>
  What the kernels find in memory they did not write: the scratch arrays of a team, and the
  variable \<^verbatim>\<open>x1\<close> of \<^verbatim>\<open>RecvAndUnpackFC_Orb\<close>. The piecewise linear flux routine is
  declared in \<^verbatim>\<open>remap_fluxes.hpp\<close>, which is not part of the sources; it is a parameter.
\<close>

record OrbEnv =
  scr_u0 :: "idx4 \<Rightarrow> int \<Rightarrow> real"
  scr_flx :: "idx4 \<Rightarrow> int \<Rightarrow> real"
  scr_q1 :: "idx4 \<Rightarrow> int \<Rightarrow> real"
  x1_uninit :: "idx4 \<Rightarrow> real"
  PcwsLinearOrbAdvFlx ::
    "int \<Rightarrow> int \<Rightarrow> real \<Rightarrow> (int \<Rightarrow> real) \<Rightarrow> (int \<Rightarrow> real) \<Rightarrow> (int \<Rightarrow> real) \<Rightarrow> (int \<Rightarrow> real)"

text \<open>\<^verbatim>\<open>par_for\<close> over four index ranges, the last index running fastest.\<close>

definition range4 ::
  "int \<Rightarrow> int \<Rightarrow> int \<Rightarrow> int \<Rightarrow> int \<Rightarrow> int \<Rightarrow> int \<Rightarrow> int \<Rightarrow> idx4 list" where
  "range4 al au bl bu cl cu dl du =
    List.product [al..au] (List.product [bl..bu] (List.product [cl..cu] [dl..du]))"

subsection \<open>\<^verbatim>\<open>PackAndSendCC_Orb\<close>\<close>

definition rbuf_vars_set :: "int \<Rightarrow> idx5 \<Rightarrow> real \<Rightarrow> OrbBuffers \<Rightarrow> OrbBuffers" where
  "rbuf_vars_set dn p x ob =
    ob\<lparr>recvbuf_orb := (recvbuf_orb ob)(dn := (recvbuf_orb ob dn)
         \<lparr>vars := (vars (recvbuf_orb ob dn))(p := x)\<rparr>)\<rparr>"

definition sbuf_vars_set :: "int \<Rightarrow> idx5 \<Rightarrow> real \<Rightarrow> OrbBuffers \<Rightarrow> OrbBuffers" where
  "sbuf_vars_set n p x ob =
    ob\<lparr>sendbuf_orb := (sendbuf_orb ob)(n := (sendbuf_orb ob n)
         \<lparr>vars := (vars (sendbuf_orb ob n))(p := x)\<rparr>)\<rparr>"

text \<open>The slots of the x2-faces in the neighbour table, and the j-range packed for each.\<close>

definition orb_nnghbr :: "int \<Rightarrow> int" where
  "orb_nnghbr n = (if n = 0 then 8 else 12)"

definition orb_jl :: "MeshBlockPack \<Rightarrow> ShearingBox \<Rightarrow> int \<Rightarrow> int" where
  "orb_jl P S n =
    (if n = 0 then js (mb_indcs P) else je (mb_indcs P) - (ng (mb_indcs P) + maxjshift S - 1))"

definition orb_ju :: "MeshBlockPack \<Rightarrow> ShearingBox \<Rightarrow> int \<Rightarrow> int" where
  "orb_ju P S n =
    (if n = 0 then js (mb_indcs P) + (ng (mb_indcs P) + maxjshift S - 1) else je (mb_indcs P))"

text \<open>
  The innermost lambda of the pack kernel, for team \<open>(m, n, v)\<close> and flat index \<open>idx\<close>.
  League ranks and flat indices start at 0, and the divisors are positive for a pack with a
  variable and non-empty index ranges; on such operands the truncating division and the
  remainder of C++ are \<open>div\<close> and \<open>mod\<close>.
\<close>

definition PackCC_cell ::
  "MeshBlockPack \<Rightarrow> ShearingBox \<Rightarrow> (idx5 \<Rightarrow> real) \<Rightarrow> int \<Rightarrow> int \<Rightarrow> int \<Rightarrow> int \<Rightarrow>
   OrbBuffers \<Rightarrow> OrbBuffers" where
  "PackCC_cell P S a m n v idx ob =
    (let il = is' (mb_indcs P); iu = ie (mb_indcs P);
         jl = orb_jl P S n; ju = orb_ju P S n;
         kl = ks (mb_indcs P);
         ni = iu - il + 1; nj = ju - jl + 1; nji = nj * ni;
         dm = gid (nghbr P m (orb_nnghbr n)) - mb_gid P 0;
         dn = (n + 1) mod 2;
         k0 = idx div nji;
         j0 = (idx - k0 * nji) div ni;
         i = (idx - k0 * nji - j0 * ni) + il;
         k = k0 + kl;
         j = j0 + jl
     in if rank (nghbr P m (orb_nnghbr n)) = my_rank P
        then rbuf_vars_set dn (dm, v, k - kl, j - jl, i - il) (a (m, v, k, j, i)) ob
        else sbuf_vars_set n (m, v, k - kl, j - jl, i - il) (a (m, v, k, j, i)) ob)"

definition PackCC_nkji :: "MeshBlockPack \<Rightarrow> ShearingBox \<Rightarrow> int \<Rightarrow> int" where
  "PackCC_nkji P S n =
    (let ni = ie (mb_indcs P) - is' (mb_indcs P) + 1;
         nj = orb_ju P S n - orb_jl P S n + 1;
         nk = ke (mb_indcs P) - ks (mb_indcs P) + 1
     in nk * nj * ni)"

text \<open>One team of the pack kernel: league rank \<open>r\<close> is split into block, buffer and variable.\<close>

definition PackCC_team ::
  "MeshBlockPack \<Rightarrow> ShearingBox \<Rightarrow> (idx5 \<Rightarrow> real) \<Rightarrow> int \<Rightarrow> int \<Rightarrow> OrbBuffers \<Rightarrow> OrbBuffers" where
  "PackCC_team P S a nvar r ob =
    (let m = r div (2 * nvar);
         n = (r - m * (2 * nvar)) div nvar;
         v = r - m * (2 * nvar) - n * nvar
     in if gid (nghbr P m (orb_nnghbr n)) \<ge> 0
        then fold (PackCC_cell P S a m n v) [0..PackCC_nkji P S n - 1] ob
        else ob)"

definition PackCC_kernel ::
  "MeshBlockPack \<Rightarrow> ShearingBox \<Rightarrow> (idx5 \<Rightarrow> real) \<Rightarrow> int \<Rightarrow> OrbBuffers \<Rightarrow> OrbBuffers" where
  "PackCC_kernel P S a nvar ob =
    (let nmnv = nmb_thispack P * 2 * nvar
     in fold (PackCC_team P S a nvar) [0..nmnv - 1] ob)"

text \<open>The host loop that posts the sends: blocks \<open>m\<close>, slots 8 and 12. As in the source,
  this loop indexes \<^verbatim>\<open>sbuf\<close> with the slot, while the kernel indexes it with the buffer number
  0 or 1. \<^verbatim>\<open>send_ptr.size()\<close> is the field \<open>vars_size\<close> of the buffer.\<close>

definition PackCC_send_body ::
  "MeshBlockPack \<Rightarrow> Transport \<Rightarrow> int \<times> int \<Rightarrow> bool \<times> OrbBuffers \<Rightarrow> bool \<times> OrbBuffers" where
  "PackCC_send_body P T mn st =
    (case mn of (m, n) \<Rightarrow> case st of (no_errors, ob) \<Rightarrow>
      if gid (nghbr P m n) \<ge> 0 then
        let dn = dest (nghbr P m n);
            drank = rank (nghbr P m n)
        in if drank \<noteq> my_rank P then
             let lid = gid (nghbr P m n) - gids_eachrank P drank;
                 tag = CreateBvals_MPI_Tag P lid dn;
                 data_size = vars_size (sendbuf_orb ob n);
                 ob' = ob\<lparr>sendbuf_orb := (sendbuf_orb ob)(n := (sendbuf_orb ob n)
                         \<lparr>vars_req_orb := (vars_req_orb (sendbuf_orb ob n))
                            (m := Isend data_size drank tag)\<rparr>)\<rparr>
             in (if isend_success T m n then no_errors else False, ob')
           else st
      else st)"

definition PackAndSendCC_Orb ::
  "MeshBlockPack \<Rightarrow> ShearingBox \<Rightarrow> Transport \<Rightarrow> (idx5 \<Rightarrow> real) \<Rightarrow> int \<Rightarrow> OrbBuffers \<Rightarrow>
   OrbBuffers outcome" where
  "PackAndSendCC_Orb P S T a nvar ob =
    (let ob1 = PackCC_kernel P S a nvar ob
     in if MPI_PARALLEL_ENABLED P then
          let r = fold (PackCC_send_body P T) (List.product [0..nmb_thispack P - 1] [8, 12])
                    (True, ob1)
          in if \<not> fst r then Exited else Returned complete (snd r)
        else Returned complete ob1)"

subsection \<open>\<^verbatim>\<open>RecvAndUnpackCC_Orb\<close>\<close>

text \<open>
  The arithmetic of \<^verbatim>\<open>double\<close> (IEEE 754 binary64, round to nearest, ties to even). A
  finite double other than zero is an integer multiple of \<open>2 ^ (e - 52)\<close>, where \<open>e\<close> is
  the exponent of its binade and at least -1022. The result of a multiplication or a division
  is the exact result rounded to the nearest such number: \<open>fl\<close>. Results beyond the largest
  finite double, infinities and NaN are outside the model.
\<close>

definition round_even :: "real \<Rightarrow> int" where
  "round_even r =
    (let f = \<lfloor>r\<rfloor> in
     if r - real_of_int f < 1 / 2 then f
     else if 1 / 2 < r - real_of_int f then f + 1
     else if even f then f else f + 1)"

definition ulp :: "real \<Rightarrow> real" where
  "ulp x = 2 powr (real_of_int (max \<lfloor>log 2 \<bar>x\<bar>\<rfloor> (- 1022)) - 52)"

definition fl :: "real \<Rightarrow> real" where
  "fl x = (if x = 0 then 0 else ulp x * real_of_int (round_even (x / ulp x)))"

text \<open>
  \<^verbatim>\<open>static_cast<int>\<close> of a \<^verbatim>\<open>Real\<close> drops the fractional part (rounds toward zero); the
  conversion is defined when the result is in the range of a 32-bit \<^verbatim>\<open>int\<close>
  (\<open>int_range\<close>). \<^verbatim>\<open>fmod(x, y)\<close> is \<open>x - n * y\<close> for \<open>n\<close> the exact quotient \<open>x / y\<close>
  rounded toward zero, so the result has the sign of \<open>x\<close>; the library computes it without
  rounding error. A zero divisor is outside the model.
\<close>

definition static_cast_int :: "real \<Rightarrow> int" where
  "static_cast_int x = (if x \<ge> 0 then \<lfloor>x\<rfloor> else \<lceil>x\<rceil>)"

definition int_range :: "real \<Rightarrow> bool" where
  "int_range x \<longleftrightarrow> - (2 ^ 31) - 1 < x \<and> x < 2 ^ 31"

definition fmod :: "real \<Rightarrow> real \<Rightarrow> real" where
  "fmod x y = x - real_of_int (static_cast_int (x / y)) * y"

text \<open>The three quantities computed at the head of a team of either unpack kernel, given
  the x1 position used: \<^verbatim>\<open>qom = qshear*omega0\<close>, \<^verbatim>\<open>yshear = -qom*x1*dt\<close> (two products,
  from the left), \<^verbatim>\<open>joffset = static_cast<int>(yshear/dx2)\<close> and
  \<^verbatim>\<open>epsi = fmod(yshear,dx2)/dx2\<close>.\<close>

definition orb_yshear :: "MeshBlockPack \<Rightarrow> ShearingBox \<Rightarrow> real \<Rightarrow> real" where
  "orb_yshear P S x1 = (let qom = fl (qshear S * omega0 S) in fl (fl (- qom * x1) * dt P))"

definition orb_joffset :: "MeshBlockPack \<Rightarrow> int \<Rightarrow> real \<Rightarrow> int" where
  "orb_joffset P m yshear = static_cast_int (fl (yshear / dx2 (mb_size P m)))"

definition orb_epsi :: "MeshBlockPack \<Rightarrow> int \<Rightarrow> real \<Rightarrow> real" where
  "orb_epsi P m yshear = fl (fmod yshear (dx2 (mb_size P m)) / dx2 (mb_size P m))"

definition CC_x1v :: "MeshBlockPack \<Rightarrow> int \<Rightarrow> int \<Rightarrow> real" where
  "CC_x1v P m i =
    CellCenterX P (i - is' (mb_indcs P)) (nx1 (mb_indcs P))
      (x1min (mb_size P m)) (x1max (mb_size P m))"

definition CC_yshear :: "MeshBlockPack \<Rightarrow> ShearingBox \<Rightarrow> int \<Rightarrow> int \<Rightarrow> real" where
  "CC_yshear P S m i = orb_yshear P S (CC_x1v P m i)"

text \<open>
  Modelled from the spec: \<^verbatim>\<open>DonorCellOrbAdvFlx\<close>, declared in \<^verbatim>\<open>remap_fluxes.hpp\<close>, which is
  not part of the sources. Donor cell is the piecewise constant reconstruction: the flux
  through face \<open>j\<close> for the fractional offset \<open>eps\<close> is \<open>eps\<close> times the value of the cell
  upwind of the face, for the faces \<open>jl\<close> to \<open>ju\<close>.
\<close>

definition DonorCellOrbAdvFlx ::
  "int \<Rightarrow> int \<Rightarrow> real \<Rightarrow> (int \<Rightarrow> real) \<Rightarrow> (int \<Rightarrow> real) \<Rightarrow> (int \<Rightarrow> real) \<Rightarrow> (int \<Rightarrow> real)" where
  "DonorCellOrbAdvFlx jl ju eps u q1 flx =
    fold (\<lambda>j f. f(j := (if eps > 0 then eps * u (j - 1) else eps * u j))) [jl..ju] flx"

text \<open>The \<^verbatim>\<open>switch\<close> on the reconstruction method; the default case leaves \<^verbatim>\<open>flx\<close> as found.\<close>

definition orb_flux ::
  "OrbEnv \<Rightarrow> ReconstructionMethod \<Rightarrow> int \<Rightarrow> int \<Rightarrow> real \<Rightarrow>
   (int \<Rightarrow> real) \<Rightarrow> (int \<Rightarrow> real) \<Rightarrow> (int \<Rightarrow> real) \<Rightarrow> (int \<Rightarrow> real)" where
  "orb_flux E rcon jl ju eps u q1 flx =
    (case rcon of
       dc \<Rightarrow> DonorCellOrbAdvFlx jl ju eps u q1 flx
     | plm \<Rightarrow> PcwsLinearOrbAdvFlx E jl ju eps u q1 flx
     | _ \<Rightarrow> flx)"

text \<open>The gather of one entry \<^verbatim>\<open>u0_(jj)\<close> of the shifted scratch array.\<close>

definition UnpackCC_load ::
  "MeshBlockPack \<Rightarrow> ShearingBox \<Rightarrow> OrbBuffers \<Rightarrow> (idx5 \<Rightarrow> real) \<Rightarrow>
   int \<Rightarrow> int \<Rightarrow> int \<Rightarrow> int \<Rightarrow> int \<Rightarrow> int \<Rightarrow> real" where
  "UnpackCC_load P S ob u0 m n k i joffset jj =
    (if jj - joffset < js (mb_indcs P)
     then vars (recvbuf_orb ob 0)
            (m, n, k - ks (mb_indcs P), (jj - joffset) + maxjshift S, i - is' (mb_indcs P))
     else if jj - joffset < je (mb_indcs P) + 1
     then u0 (m, n, k, jj - joffset, i)
     else vars (recvbuf_orb ob 1)
            (m, n, k - ks (mb_indcs P), (jj - joffset) - (je (mb_indcs P) + 1), i - is' (mb_indcs P)))"

text \<open>The read of a receive buffer in that gather is inside the extents of the array
  \<^verbatim>\<open>vars\<close>. (The same holds of the gather of \<^verbatim>\<open>RecvAndUnpackFC_Orb\<close>, which reads the same
  array with the same indices.)\<close>

definition in_extent :: "idx5 \<Rightarrow> idx5 \<Rightarrow> bool" where
  "in_extent ext p =
    (case ext of (e1, e2, e3, e4, e5) \<Rightarrow> case p of (p1, p2, p3, p4, p5) \<Rightarrow>
      0 \<le> p1 \<and> p1 < e1 \<and> 0 \<le> p2 \<and> p2 < e2 \<and> 0 \<le> p3 \<and> p3 < e3
      \<and> 0 \<le> p4 \<and> p4 < e4 \<and> 0 \<le> p5 \<and> p5 < e5)"

definition orb_load_ok ::
  "MeshBlockPack \<Rightarrow> ShearingBox \<Rightarrow> OrbBuffers \<Rightarrow> int \<Rightarrow> int \<Rightarrow> int \<Rightarrow> int \<Rightarrow> int \<Rightarrow> int \<Rightarrow> bool" where
  "orb_load_ok P S ob m n k i joffset jj =
    (if jj - joffset < js (mb_indcs P)
     then in_extent (vars_extent (recvbuf_orb ob 0))
            (m, n, k - ks (mb_indcs P), (jj - joffset) + maxjshift S, i - is' (mb_indcs P))
     else if jj - joffset < je (mb_indcs P) + 1 then True
     else in_extent (vars_extent (recvbuf_orb ob 1))
            (m, n, k - ks (mb_indcs P), (jj - joffset) - (je (mb_indcs P) + 1), i - is' (mb_indcs P)))"

definition UnpackCC_gather ::
  "MeshBlockPack \<Rightarrow> ShearingBox \<Rightarrow> OrbEnv \<Rightarrow> OrbBuffers \<Rightarrow> (idx5 \<Rightarrow> real) \<Rightarrow>
   idx4 \<Rightarrow> int \<Rightarrow> int \<Rightarrow> real" where
  "UnpackCC_gather P S E ob u0 t joffset =
    (case t of (m, n, k, i) \<Rightarrow>
      let ncells2 = nx2 (mb_indcs P) + 2 * ng (mb_indcs P)
      in fold (\<lambda>jj u. u(jj := UnpackCC_load P S ob u0 m n k i joffset jj)) [0..ncells2 - 1]
           (scr_u0 E t))"

text \<open>What a team \<open>(m, n, k, i)\<close> of the unpack kernel does with its integer offset and its
  fractional offset: gather, fluxes, update of \<^verbatim>\<open>u0\<close>.\<close>

definition UnpackCC_apply ::
  "MeshBlockPack \<Rightarrow> ShearingBox \<Rightarrow> OrbEnv \<Rightarrow> ReconstructionMethod \<Rightarrow> OrbBuffers \<Rightarrow>
   idx4 \<Rightarrow> int \<Rightarrow> real \<Rightarrow> (idx5 \<Rightarrow> real) \<Rightarrow> (idx5 \<Rightarrow> real)" where
  "UnpackCC_apply P S E rcon ob t joffset epsi u0 =
    (case t of (m, n, k, i) \<Rightarrow>
      let u0s = UnpackCC_gather P S E ob u0 t joffset;
          flx = orb_flux E rcon (js (mb_indcs P)) (je (mb_indcs P) + 1) epsi u0s
                  (scr_q1 E t) (scr_flx E t)
      in fold (\<lambda>j u. u((m, n, k, j, i) := u0s j - (flx (j + 1) - flx j)))
           [js (mb_indcs P)..je (mb_indcs P)] u0)"

text \<open>One team \<open>(m, n, k, i)\<close> of the unpack kernel: shift distance, integer offset and
  fractional offset, and then the gather, the fluxes and the update with them.\<close>

definition UnpackCC_team ::
  "MeshBlockPack \<Rightarrow> ShearingBox \<Rightarrow> OrbEnv \<Rightarrow> ReconstructionMethod \<Rightarrow> OrbBuffers \<Rightarrow>
   idx4 \<Rightarrow> (idx5 \<Rightarrow> real) \<Rightarrow> (idx5 \<Rightarrow> real)" where
  "UnpackCC_team P S E rcon ob t u0 =
    (case t of (m, n, k, i) \<Rightarrow>
      let yshear = CC_yshear P S m i;
          joffset = orb_joffset P m yshear;
          epsi = orb_epsi P m yshear
      in UnpackCC_apply P S E rcon ob t joffset epsi u0)"

text \<open>The loop of \<^verbatim>\<open>MPI_Test\<close> calls of the two unpack steps: the state is
  \<^verbatim>\<open>(bflag, no_errors)\<close>. The steps test different requests (\<^verbatim>\<open>vars_req\<close> and
  \<^verbatim>\<open>flds_req\<close>); the transport answers for whichever the step asks about.\<close>

definition orb_test_body ::
  "MeshBlockPack \<Rightarrow> Transport \<Rightarrow> int \<times> int \<Rightarrow> bool \<times> bool \<Rightarrow> bool \<times> bool" where
  "orb_test_body P T mn st =
    (case mn of (m, n) \<Rightarrow> case st of (bflag, no_errors) \<Rightarrow>
      if gid (nghbr P m n) \<ge> 0 then
        if rank (nghbr P m n) \<noteq> my_rank P then
          (if \<not> test_flag T m n then True else bflag,
           if test_success T m n then no_errors else False)
        else st
      else st)"

definition orb_test_all :: "MeshBlockPack \<Rightarrow> Transport \<Rightarrow> bool \<times> bool" where
  "orb_test_all P T =
    (if MPI_PARALLEL_ENABLED P then fold (orb_test_body P T) (mb_nghbr_pairs P) (False, True)
     else (False, True))"

definition CC_teams :: "MeshBlockPack \<Rightarrow> int \<Rightarrow> idx4 list" where
  "CC_teams P nvar =
    range4 0 (nmb_thispack P - 1) 0 (nvar - 1) (ks (mb_indcs P)) (ke (mb_indcs P))
      (is' (mb_indcs P)) (ie (mb_indcs P))"

definition UnpackCC_kernel ::
  "MeshBlockPack \<Rightarrow> ShearingBox \<Rightarrow> OrbEnv \<Rightarrow> ReconstructionMethod \<Rightarrow> OrbBuffers \<Rightarrow>
   int \<Rightarrow> (idx5 \<Rightarrow> real) \<Rightarrow> (idx5 \<Rightarrow> real)" where
  "UnpackCC_kernel P S E rcon ob nvar u0 =
    fold (UnpackCC_team P S E rcon ob) (CC_teams P nvar) u0"

text \<open>
  When a team of the unpack kernel has defined behaviour. The cell width is not zero and the
  quotient converted to \<^verbatim>\<open>int\<close> is in range. Every read of a receive buffer in the gather
  is inside the extents of its array \<^verbatim>\<open>vars\<close>. The update reads \<^verbatim>\<open>u0_(j)\<close>, \<^verbatim>\<open>flx(j)\<close>
  and \<^verbatim>\<open>flx(j+1)\<close> for \<open>j\<close> in \<open>js..je\<close>; these indices are inside the scratch arrays,
  which have \<^verbatim>\<open>ncells2\<close> entries. The array \<^verbatim>\<open>u0\<close> is read and written in interior cells
  only.
\<close>

definition UnpackCC_defined ::
  "MeshBlockPack \<Rightarrow> ShearingBox \<Rightarrow> OrbBuffers \<Rightarrow> idx4 \<Rightarrow> bool" where
  "UnpackCC_defined P S ob t =
    (case t of (m, n, k, i) \<Rightarrow>
      let ncells2 = nx2 (mb_indcs P) + 2 * ng (mb_indcs P);
          yshear = CC_yshear P S m i;
          joffset = orb_joffset P m yshear
      in dx2 (mb_size P m) \<noteq> 0
         \<and> int_range (fl (yshear / dx2 (mb_size P m)))
         \<and> (\<forall>jj \<in> set [0..ncells2 - 1]. orb_load_ok P S ob m n k i joffset jj)
         \<and> (\<forall>j \<in> set [js (mb_indcs P)..je (mb_indcs P)]. 0 \<le> j \<and> j + 1 < ncells2))"

definition RecvAndUnpackCC_Orb ::
  "MeshBlockPack \<Rightarrow> ShearingBox \<Rightarrow> Transport \<Rightarrow> OrbEnv \<Rightarrow> ReconstructionMethod \<Rightarrow>
   OrbBuffers \<Rightarrow> int \<Rightarrow> (idx5 \<Rightarrow> real) \<Rightarrow> (idx5 \<Rightarrow> real) outcome" where
  "RecvAndUnpackCC_Orb P S T E rcon ob nvar u0 =
    (case orb_test_all P T of (bflag, no_errors) \<Rightarrow>
      if \<not> no_errors then Exited
      else if bflag then Returned incomplete u0
      else Returned complete (UnpackCC_kernel P S E rcon ob nvar u0))"

subsection \<open>\<^verbatim>\<open>RecvAndUnpackFC_Orb\<close>\<close>

record FaceFld =
  x1f :: "idx4 \<Rightarrow> real"
  x2f :: "idx4 \<Rightarrow> real"
  x3f :: "idx4 \<Rightarrow> real"

record EdgeFld =
  x1e :: "idx4 \<Rightarrow> real"
  x2e :: "idx4 \<Rightarrow> real"
  x3e :: "idx4 \<Rightarrow> real"

text \<open>
  The x1 position used for the shift. The function declares \<^verbatim>\<open>Real x1;\<close> and then, in
  each branch on \<open>v\<close>, declares a new \<^verbatim>\<open>Real x1 = ...\<close> that goes out of scope at the end
  of the branch. The shift is computed from the outer variable, which is never assigned:
  its value is whatever the memory holds.
\<close>

definition FC_x1 :: "MeshBlockPack \<Rightarrow> OrbEnv \<Rightarrow> idx4 \<Rightarrow> real" where
  "FC_x1 P E t =
    (case t of (m, v, k, i) \<Rightarrow>
      let x1 = x1_uninit E t;
          x1_inner =
            (if v = 0 then CellCenterX P (i - is' (mb_indcs P)) (nx1 (mb_indcs P))
                             (x1min (mb_size P m)) (x1max (mb_size P m))
             else if v = 1 then LeftEdgeX P (i - is' (mb_indcs P)) (nx1 (mb_indcs P))
                             (x1min (mb_size P m)) (x1max (mb_size P m))
             else x1)
      in x1)"

text \<open>The gather of one entry of the scratch array. As in the source, the buffer entries are
  read from the array \<^verbatim>\<open>vars\<close> of the receive buffers, and an entry of the interior is
  assigned only for \<open>v = 0\<close> and \<open>v = 1\<close>.\<close>

definition UnpackFC_load ::
  "MeshBlockPack \<Rightarrow> ShearingBox \<Rightarrow> OrbBuffers \<Rightarrow> FaceFld \<Rightarrow>
   int \<Rightarrow> int \<Rightarrow> int \<Rightarrow> int \<Rightarrow> int \<Rightarrow> int \<Rightarrow> real \<Rightarrow> real" where
  "UnpackFC_load P S ob b0 m v k i joffset jj old =
    (if jj - joffset < js (mb_indcs P)
     then vars (recvbuf_orb ob 0)
            (m, v, k - ks (mb_indcs P), (jj - joffset) + maxjshift S, i - is' (mb_indcs P))
     else if jj - joffset < je (mb_indcs P) + 1
     then (if v = 0 then x3f b0 (m, k, jj - joffset, i)
           else if v = 1 then x1f b0 (m, k, jj - joffset, i)
           else old)
     else vars (recvbuf_orb ob 1)
            (m, v, k - ks (mb_indcs P), (jj - joffset) - (je (mb_indcs P) + 1), i - is' (mb_indcs P)))"

definition UnpackFC_gather ::
  "MeshBlockPack \<Rightarrow> ShearingBox \<Rightarrow> OrbEnv \<Rightarrow> OrbBuffers \<Rightarrow> FaceFld \<Rightarrow>
   idx4 \<Rightarrow> int \<Rightarrow> int \<Rightarrow> real" where
  "UnpackFC_gather P S E ob b0 t joffset =
    (case t of (m, v, k, i) \<Rightarrow>
      let ncells2 = nx2 (mb_indcs P) + 2 * ng (mb_indcs P)
      in fold (\<lambda>jj u. u(jj := UnpackFC_load P S ob b0 m v k i joffset jj (u jj)))
           [0..ncells2 - 1] (scr_u0 E t))"

text \<open>What a team \<open>(m, v, k, i)\<close> of the kernel that computes the effective EMFs does with
  its integer offset and its fractional offset: gather, fluxes, and then the EMF from the
  fluxes and from the sum over the cells of the integer offset. \<^verbatim>\<open>emfx\<close> is
  \<^verbatim>\<open>efld.x1e\<close>, \<^verbatim>\<open>emfz\<close> is \<^verbatim>\<open>efld.x3e\<close>.\<close>

definition UnpackFC_apply ::
  "MeshBlockPack \<Rightarrow> ShearingBox \<Rightarrow> OrbEnv \<Rightarrow> ReconstructionMethod \<Rightarrow> OrbBuffers \<Rightarrow> FaceFld \<Rightarrow>
   idx4 \<Rightarrow> int \<Rightarrow> real \<Rightarrow> EdgeFld \<Rightarrow> EdgeFld" where
  "UnpackFC_apply P S E rcon ob b0 t joffset epsi efld =
    (case t of (m, v, k, i) \<Rightarrow>
      let u0s = UnpackFC_gather P S E ob b0 t joffset;
          flx = orb_flux E rcon (js (mb_indcs P)) (je (mb_indcs P) + 1) epsi u0s
                  (scr_q1 E t) (scr_flx E t)
      in if v = 0 then
           let emfx1 = fold (\<lambda>j e. e((m, k, j, i) := - flx j))
                         [js (mb_indcs P)..je (mb_indcs P)] (x1e efld);
               emfx2 = fold (\<lambda>j e. e((m, k, j, i) := e (m, k, j, i) - u0s j)) [1..joffset] emfx1;
               emfx3 = fold (\<lambda>j e. e((m, k, j, i) := e (m, k, j, i) + u0s j)) [joffset + 1..0] emfx2
           in efld\<lparr>x1e := emfx3\<rparr>
         else if v = 1 then
           let emfz1 = fold (\<lambda>j e. e((m, k, j, i) := flx j))
                         [js (mb_indcs P)..je (mb_indcs P)] (x3e efld);
               emfz2 = fold (\<lambda>j e. e((m, k, j, i) := e (m, k, j, i) + u0s j)) [1..joffset] emfz1;
               emfz3 = fold (\<lambda>j e. e((m, k, j, i) := e (m, k, j, i) - u0s j)) [joffset + 1..0] emfz2
           in efld\<lparr>x3e := emfz3\<rparr>
         else efld)"

text \<open>One team \<open>(m, v, k, i)\<close> of that kernel. The shift distance is computed from the
  unassigned variable.\<close>

definition FC_yshear :: "MeshBlockPack \<Rightarrow> ShearingBox \<Rightarrow> OrbEnv \<Rightarrow> idx4 \<Rightarrow> real" where
  "FC_yshear P S E t = orb_yshear P S (FC_x1 P E t)"

definition UnpackFC_team ::
  "MeshBlockPack \<Rightarrow> ShearingBox \<Rightarrow> OrbEnv \<Rightarrow> ReconstructionMethod \<Rightarrow> OrbBuffers \<Rightarrow> FaceFld \<Rightarrow>
   idx4 \<Rightarrow> EdgeFld \<Rightarrow> EdgeFld" where
  "UnpackFC_team P S E rcon ob b0 t efld =
    (case t of (m, v, k, i) \<Rightarrow>
      let yshear = FC_yshear P S E t;
          joffset = orb_joffset P m yshear;
          epsi = orb_epsi P m yshear
      in UnpackFC_apply P S E rcon ob b0 t joffset epsi efld)"

definition FC_teams :: "MeshBlockPack \<Rightarrow> idx4 list" where
  "FC_teams P =
    range4 0 (nmb_thispack P - 1) 0 1 (ks (mb_indcs P)) (ke (mb_indcs P) + 1)
      (is' (mb_indcs P)) (ie (mb_indcs P) + 1)"

definition UnpackFC_emf ::
  "MeshBlockPack \<Rightarrow> ShearingBox \<Rightarrow> OrbEnv \<Rightarrow> ReconstructionMethod \<Rightarrow> OrbBuffers \<Rightarrow> FaceFld \<Rightarrow>
   EdgeFld \<Rightarrow> EdgeFld" where
  "UnpackFC_emf P S E rcon ob b0 efld = fold (UnpackFC_team P S E rcon ob b0) (FC_teams P) efld"

text \<open>
  When a team of that kernel has defined behaviour. The cell width is not zero and the
  quotient converted to \<^verbatim>\<open>int\<close> is in range. Every read of a receive buffer in the gather
  is inside the extents of its array \<^verbatim>\<open>vars\<close>. Every index \<open>j\<close> of the loops over
  \<open>js..je\<close>, \<open>1..joffset\<close> and \<open>joffset+1..0\<close> is inside the scratch arrays, which have
  \<^verbatim>\<open>ncells2\<close> entries. The arrays \<^verbatim>\<open>b0\<close> and \<^verbatim>\<open>efld\<close> are allocated by the MHD module,
  which is not part of the sources; the model takes them to cover every index
  \<open>(m, k, j, i)\<close> with \<open>k\<close> in \<open>ks..ke+1\<close>, \<open>i\<close> in \<open>is..ie+1\<close> and \<open>j\<close> inside the scratch
  arrays, as they do on a mesh that extends in all three directions with a layer of ghost
  cells.
\<close>

definition UnpackFC_defined ::
  "MeshBlockPack \<Rightarrow> ShearingBox \<Rightarrow> OrbEnv \<Rightarrow> OrbBuffers \<Rightarrow> idx4 \<Rightarrow> bool" where
  "UnpackFC_defined P S E ob t =
    (case t of (m, v, k, i) \<Rightarrow>
      let ncells2 = nx2 (mb_indcs P) + 2 * ng (mb_indcs P);
          yshear = FC_yshear P S E t;
          joffset = orb_joffset P m yshear
      in dx2 (mb_size P m) \<noteq> 0
         \<and> int_range (fl (yshear / dx2 (mb_size P m)))
         \<and> (\<forall>jj \<in> set [0..ncells2 - 1]. orb_load_ok P S ob m v k i joffset jj)
         \<and> (\<forall>j \<in> set ([js (mb_indcs P)..je (mb_indcs P)] @ [1..joffset] @ [joffset + 1..0]).
              0 \<le> j \<and> j < ncells2))"

text \<open>The three constrained transport loops, each over \<open>(m, k, j, i)\<close>, with the
  assignment of each to its own cell.\<close>

definition CT_b1_cell :: "EdgeFld \<Rightarrow> idx4 \<Rightarrow> real \<Rightarrow> real" where
  "CT_b1_cell efld p x =
    (case p of (m, k, j, i) \<Rightarrow> x - (x3e efld (m, k, j + 1, i) - x3e efld (m, k, j, i)))"

definition CT_b1 :: "MeshBlockPack \<Rightarrow> EdgeFld \<Rightarrow> FaceFld \<Rightarrow> FaceFld" where
  "CT_b1 P efld b0 =
    (if multi_d P then
       b0\<lparr>x1f := fold (\<lambda>p f. f(p := CT_b1_cell efld p (f p)))
               (range4 0 (nmb_thispack P - 1) (ks (mb_indcs P)) (ke (mb_indcs P))
                  (js (mb_indcs P)) (je (mb_indcs P)) (is' (mb_indcs P)) (ie (mb_indcs P) + 1))
               (x1f b0)\<rparr>
     else b0)"

definition CT_b2_cell :: "MeshBlockPack \<Rightarrow> EdgeFld \<Rightarrow> idx4 \<Rightarrow> real \<Rightarrow> real" where
  "CT_b2_cell P efld p x =
    (case p of (m, k, j, i) \<Rightarrow>
      let dydx = dx2 (mb_size P m) / dx1 (mb_size P m);
          x' = x + dydx * (x3e efld (m, k, j, i + 1) - x3e efld (m, k, j, i))
      in if three_d P then
           let dydz = dx2 (mb_size P m) / dx3 (mb_size P m)
           in x' - dydz * (x1e efld (m, k + 1, j, i) - x1e efld (m, k, j, i))
         else x')"

definition CT_b2 :: "MeshBlockPack \<Rightarrow> EdgeFld \<Rightarrow> FaceFld \<Rightarrow> FaceFld" where
  "CT_b2 P efld b0 =
    b0\<lparr>x2f := fold (\<lambda>p f. f(p := CT_b2_cell P efld p (f p)))
              (range4 0 (nmb_thispack P - 1) (ks (mb_indcs P)) (ke (mb_indcs P))
                 (js (mb_indcs P)) (je (mb_indcs P) + 1) (is' (mb_indcs P)) (ie (mb_indcs P)))
              (x2f b0)\<rparr>"

definition CT_b3_cell :: "EdgeFld \<Rightarrow> idx4 \<Rightarrow> real \<Rightarrow> real" where
  "CT_b3_cell efld p x =
    (case p of (m, k, j, i) \<Rightarrow> x + (x1e efld (m, k, j + 1, i) - x1e efld (m, k, j, i)))"

definition CT_b3 :: "MeshBlockPack \<Rightarrow> EdgeFld \<Rightarrow> FaceFld \<Rightarrow> FaceFld" where
  "CT_b3 P efld b0 =
    (if multi_d P then
       b0\<lparr>x3f := fold (\<lambda>p f. f(p := CT_b3_cell efld p (f p)))
               (range4 0 (nmb_thispack P - 1) (ks (mb_indcs P)) (ke (mb_indcs P) + 1)
                  (js (mb_indcs P)) (je (mb_indcs P)) (is' (mb_indcs P)) (ie (mb_indcs P)))
               (x3f b0)\<rparr>
     else b0)"

text \<open>The step: the tests, the EMF kernel when every team of it has defined behaviour, and
  the constrained transport update.\<close>

definition RecvAndUnpackFC_Orb ::
  "MeshBlockPack \<Rightarrow> ShearingBox \<Rightarrow> Transport \<Rightarrow> OrbEnv \<Rightarrow> ReconstructionMethod \<Rightarrow>
   OrbBuffers \<Rightarrow> FaceFld \<times> EdgeFld \<Rightarrow> (FaceFld \<times> EdgeFld) outcome" where
  "RecvAndUnpackFC_Orb P S T E rcon ob st =
    (case st of (b0, efld) \<Rightarrow>
     case orb_test_all P T of (bflag, no_errors) \<Rightarrow>
      if \<not> no_errors then Exited
      else if bflag then Returned incomplete (b0, efld)
      else if \<not> (\<forall>t \<in> set (FC_teams P). UnpackFC_defined P S E ob t) then Undefined
      else
        let efld' = UnpackFC_emf P S E rcon ob b0 efld
        in Returned complete (CT_b3 P efld' (CT_b2 P efld' (CT_b1 P efld' b0)), efld'))"

text \<open>
  The discrete divergence of a face-centred field in cell \<open>(m, k, j, i)\<close>: the difference of
  the two opposite faces over the cell width, for every direction the mesh extends in.
\<close>

definition divB :: "MeshBlockPack \<Rightarrow> FaceFld \<Rightarrow> idx4 \<Rightarrow> real" where
  "divB P b p =
    (case p of (m, k, j, i) \<Rightarrow>
      (x1f b (m, k, j, i + 1) - x1f b (m, k, j, i)) / dx1 (mb_size P m)
      + (if multi_d P
         then (x2f b (m, k, j + 1, i) - x2f b (m, k, j, i)) / dx2 (mb_size P m) else 0)
      + (if three_d P
         then (x3f b (m, k + 1, j, i) - x3f b (m, k, j, i)) / dx3 (mb_size P m) else 0))"

text \<open>The cells of the blocks of the pack, ghost cells left out.\<close>

definition interior :: "MeshBlockPack \<Rightarrow> idx4 set" where
  "interior P =
    {0..nmb_thispack P - 1} \<times> {ks (mb_indcs P)..ke (mb_indcs P)}
      \<times> {js (mb_indcs P)..je (mb_indcs P)} \<times> {is' (mb_indcs P)..ie (mb_indcs P)}"

text \<open>Some send of \<^verbatim>\<open>PackAndSendCC_Orb\<close> (blocks of the pack, slots 8 and 12, neighbour on
  another rank) does not return \<^verbatim>\<open>MPI_SUCCESS\<close>.\<close>

definition isend_fails :: "MeshBlockPack \<Rightarrow> Transport \<Rightarrow> bool" where
  "isend_fails P T \<longleftrightarrow>
     (\<exists>m n. 0 \<le> m \<and> m < nmb_thispack P \<and> (n = 8 \<or> n = 12)
        \<and> remote_nghbr P m n \<and> \<not> isend_success T m n)"


subsection \<open>Vocabulary for the pack kernel\<close>

text \<open>The position \<open>(k - kl, j - jl, i - il)\<close> in the buffer that the cell lambda computes from the
  flat index \<open>idx\<close>.\<close>

definition pack_dec :: "MeshBlockPack \<Rightarrow> ShearingBox \<Rightarrow> int \<Rightarrow> int \<Rightarrow> int \<times> int \<times> int" where
  "pack_dec P S n idx =
    (let ni = ie (mb_indcs P) - is' (mb_indcs P) + 1;
         nji = (orb_ju P S n - orb_jl P S n + 1) * ni;
         k0 = idx div nji;
         j0 = (idx - k0 * nji) div ni
     in (k0, j0, idx - k0 * nji - j0 * ni))"

text \<open>The block, buffer and variable that a team computes from its league rank.\<close>

definition team_of :: "int \<Rightarrow> int \<Rightarrow> int \<times> int \<times> int" where
  "team_of nvar r =
    (let m = r div (2 * nvar);
         n = (r - m * (2 * nvar)) div nvar
     in (m, n, r - m * (2 * nvar) - n * nvar))"

text \<open>Team \<open>(m, n, v)\<close> writes to entry \<open>p'\<close> of receive buffer \<open>dn'\<close>: the neighbour exists and
  is on the own rank, the entry belongs to the destination block and variable of the team,
  and some flat index of the team is decoded to its position.\<close>

definition team_hits ::
  "MeshBlockPack \<Rightarrow> ShearingBox \<Rightarrow> int \<Rightarrow> idx5 \<Rightarrow> int \<times> int \<times> int \<Rightarrow> bool" where
  "team_hits P S dn' p' t =
    (case t of (m, n, v) \<Rightarrow> case p' of (dm', v', k0, j0, i0) \<Rightarrow>
       gid (nghbr P m (orb_nnghbr n)) \<ge> 0
       \<and> rank (nghbr P m (orb_nnghbr n)) = my_rank P \<and> dn' = (n + 1) mod 2
       \<and> dm' = gid (nghbr P m (orb_nnghbr n)) - mb_gid P 0 \<and> v' = v
       \<and> (\<exists>idx \<in> set [0..PackCC_nkji P S n - 1]. pack_dec P S n idx = (k0, j0, i0)))"


section \<open>Example configurations\<close>

definition nb_none :: NeighborBlock where
  "nb_none = \<lparr>gid = -1, lev = -1, rank = -1, dest = -1\<rparr>"

definition indcs_ex :: RegionIndcs where
  "indcs_ex = \<lparr>ng = 1, nx1 = 1, nx2 = 2, nx3 = 1, is' = 1, ie = 1, js = 1, je = 2, ks = 0, ke = 0\<rparr>"

definition size_ex :: RegionSize where
  "size_ex = \<lparr>x1min = 0, x1max = 1, x2min = 0, x2max = 2, dx1 = 1, dx2 = 1, dx3 = 1\<rparr>"

text \<open>One block. Slots 0 and 12 hold a neighbour on rank 1 and slot 3 one on rank 2;
  slots 1 and 8 hold the block itself (own rank 0, periodic); every other slot is a physical
  boundary.\<close>

definition pack_ex :: MeshBlockPack where
  "pack_ex = \<lparr>nmb_thispack = 1, nnghbr = 13,
     nghbr = (\<lambda>m n. if n = 0 \<or> n = 12 then \<lparr>gid = 1, lev = 0, rank = 1, dest = 4\<rparr>
                     else if n = 1 \<or> n = 8 then \<lparr>gid = 0, lev = 0, rank = 0, dest = 0\<rparr>
                     else if n = 3 then \<lparr>gid = 2, lev = 0, rank = 2, dest = 0\<rparr>
                     else nb_none),
     mb_gid = (\<lambda>m. 0), mb_lev = (\<lambda>m. 0), mb_size = (\<lambda>m. size_ex), mb_indcs = indcs_ex,
     dt = 1, multi_d = True, three_d = False, gids_eachrank = (\<lambda>r. r), my_rank = 0,
     MPI_PARALLEL_ENABLED = True,
     CreateMPITag = (\<lambda>m n. m * 64 + n), CreateBvals_MPI_Tag = (\<lambda>m n. m * 64 + n),
     CellCenterX = (\<lambda>i n xmin xmax. xmin + (real_of_int i + 1 / 2) * (xmax - xmin) / real_of_int n),
     LeftEdgeX = (\<lambda>i n xmin xmax. xmin + real_of_int i * (xmax - xmin) / real_of_int n)\<rparr>"

definition transport_ok :: Transport where
  "transport_ok = \<lparr>irecv_success = (\<lambda>m n. True), isend_success = (\<lambda>m n. True),
     wait_success = (\<lambda>m n. True), test_success = (\<lambda>m n. True), test_flag = (\<lambda>m n. True)\<rparr>"

definition transport_failing :: Transport where
  "transport_failing = \<lparr>irecv_success = (\<lambda>m n. False), isend_success = (\<lambda>m n. False),
     wait_success = (\<lambda>m n. False), test_success = (\<lambda>m n. False), test_flag = (\<lambda>m n. False)\<rparr>"

text \<open>Every call succeeds; the receive of slot 0 has not completed.\<close>

definition transport_pending :: Transport where
  "transport_pending = \<lparr>irecv_success = (\<lambda>m n. True), isend_success = (\<lambda>m n. True),
     wait_success = (\<lambda>m n. True), test_success = (\<lambda>m n. True), test_flag = (\<lambda>m n. n \<noteq> 0)\<rparr>"

text \<open>The receive of slot 0 has not completed, and the test of slot 3 reports an error.\<close>

definition transport_mixed :: Transport where
  "transport_mixed = \<lparr>irecv_success = (\<lambda>m n. True), isend_success = (\<lambda>m n. True),
     wait_success = (\<lambda>m n. True), test_success = (\<lambda>m n. n \<noteq> 3), test_flag = (\<lambda>m n. n \<noteq> 0)\<rparr>"

definition recv_buf_ex :: "int \<Rightarrow> BoundaryBuffer" where
  "recv_buf_ex = (\<lambda>n. \<lparr>isame_ndat = 4, icoar_ndat = 2, ifine_ndat = 8,
     vars_stat = (\<lambda>m. undef), vars_req = (\<lambda>m. MPI_REQUEST_NULL)\<rparr>)"

definition shear_ex :: ShearingBox where
  "shear_ex = \<lparr>qshear = 3, omega0 = 1, maxjshift = 1\<rparr>"

definition buf_ex :: ShearingBoxBuffer where
  "buf_ex = \<lparr>vars = (\<lambda>p. 0), flds = (\<lambda>p. 0), vars_extent = (2, 2, 3, 2, 4),
     vars_size = 4, flds_size = 4,
     vars_req_orb = (\<lambda>m. MPI_REQUEST_NULL), flds_req_orb = (\<lambda>m. MPI_REQUEST_NULL)\<rparr>"

definition orbbuf_ex :: OrbBuffers where
  "orbbuf_ex = \<lparr>sendbuf_orb = (\<lambda>n. buf_ex), recvbuf_orb = (\<lambda>n. buf_ex)\<rparr>"

definition env_ex :: OrbEnv where
  "env_ex = \<lparr>scr_u0 = (\<lambda>t j. 0), scr_flx = (\<lambda>t j. 0), scr_q1 = (\<lambda>t j. 0), x1_uninit = (\<lambda>t. 1 / 8),
     PcwsLinearOrbAdvFlx = (\<lambda>jl ju eps u q1 flx. flx)\<rparr>"

definition u0_ex :: "idx5 \<Rightarrow> real" where
  "u0_ex = (\<lambda>(m, v, k, j, i). real_of_int (10 * j + i))"


definition shear_zero :: ShearingBox where
  "shear_zero = \<lparr>qshear = 0, omega0 = 1, maxjshift = 1\<rparr>"

definition b_ex :: FaceFld where
  "b_ex = \<lparr>x1f = (\<lambda>(m, k, j, i). real_of_int i), x2f = (\<lambda>(m, k, j, i). - real_of_int j),
     x3f = (\<lambda>p. 0)\<rparr>"

definition efld_ex :: EdgeFld where
  "efld_ex = \<lparr>x1e = (\<lambda>p. 0), x2e = (\<lambda>p. 0), x3e = (\<lambda>p. 0)\<rparr>"

text \<open>Two blocks stacked in x2 on one rank, with global ids 4 and 5 and periodic in x2: the
  neighbour of each across either x2-face is the other. Two cells in x1 with centres -1/2
  and 1/2, so that with shear rate 2 and time step 1 the shift is one whole cell up at the
  first and one whole cell down at the second.\<close>

definition indcs2_ex :: RegionIndcs where
  "indcs2_ex = \<lparr>ng = 1, nx1 = 2, nx2 = 2, nx3 = 1, is' = 1, ie = 2, js = 1, je = 2, ks = 0, ke = 0\<rparr>"

definition size2_ex :: RegionSize where
  "size2_ex = \<lparr>x1min = - 1, x1max = 1, x2min = 0, x2max = 2, dx1 = 1, dx2 = 1, dx3 = 1\<rparr>"

definition pack2_ex :: MeshBlockPack where
  "pack2_ex = pack_ex\<lparr>nmb_thispack := 2,
     nghbr := (\<lambda>m n. if n = 8 \<or> n = 12 then \<lparr>gid = 4 + (1 - m), lev = 0, rank = 0, dest = 0\<rparr>
                      else nb_none),
     mb_gid := (\<lambda>m. 4 + m), mb_size := (\<lambda>m. size2_ex), mb_indcs := indcs2_ex\<rparr>"

definition shear2_ex :: ShearingBox where
  "shear2_ex = \<lparr>qshear = 2, omega0 = 1, maxjshift = 1\<rparr>"

definition u2_ex :: "idx5 \<Rightarrow> real" where
  "u2_ex = (\<lambda>(m, v, k, j, i). real_of_int (100 * m + 10 * j + i))"

text \<open>One block of a mesh that extends in all three directions, with one layer of ghost
  cells around one cell in x1, two in x2 and one in x3; and a face-centred field on it with
  divergence zero.\<close>

definition indcs3_ex :: RegionIndcs where
  "indcs3_ex = \<lparr>ng = 1, nx1 = 1, nx2 = 2, nx3 = 1, is' = 1, ie = 1, js = 1, je = 2, ks = 1, ke = 1\<rparr>"

definition pack3_ex :: MeshBlockPack where
  "pack3_ex = pack_ex\<lparr>mb_indcs := indcs3_ex, three_d := True\<rparr>"

definition b3_ex :: FaceFld where
  "b3_ex = \<lparr>x1f = (\<lambda>(m, k, j, i). real_of_int i), x2f = (\<lambda>(m, k, j, i). - 2 * real_of_int j),
     x3f = (\<lambda>(m, k, j, i). real_of_int k)\<rparr>"

section \<open>Facts about the loops\<close>

lemma set_mb_nghbr_pairs:
  "set (mb_nghbr_pairs P) = {0..nmb_thispack P - 1} \<times> {0..nnghbr P - 1}"
  by (simp add: mb_nghbr_pairs_def)

lemma distinct_mb_nghbr_pairs: "distinct (mb_nghbr_pairs P)"
  by (simp add: mb_nghbr_pairs_def distinct_product)

lemma InitRecv_fold_flag:
  "fst (fold (InitRecv_body P T nvars) ps (b, rb)) =
     (b \<and> (\<forall>(m, n) \<in> set ps. MPI_PARALLEL_ENABLED P \<and> remote_nghbr P m n \<longrightarrow> irecv_success T m n))"
proof (induction ps arbitrary: b rb)
  case Nil
  show ?case by simp
next
  case (Cons p ps)
  obtain m n where p: "p = (m, n)" by (cases p)
  obtain b' rb' where step: "InitRecv_body P T nvars p (b, rb) = (b', rb')"
    by (cases "InitRecv_body P T nvars p (b, rb)")
  have b': "b' = (b \<and> (MPI_PARALLEL_ENABLED P \<and> remote_nghbr P m n \<longrightarrow> irecv_success T m n))"
    using step unfolding p InitRecv_body_def remote_nghbr_def
    by (auto simp: Let_def split: if_splits)
  have "fold (InitRecv_body P T nvars) (p # ps) (b, rb) = fold (InitRecv_body P T nvars) ps (b', rb')"
    by (simp add: step)
  then show ?case
    using Cons.IH [of b' rb'] by (auto simp: b' p)
qed

lemma InitRecv_fold_stat:
  "vars_stat (snd (fold (InitRecv_body P T nvars) ps (b, rb)) n) m =
     (if (m, n) \<in> set ps \<and> gid (nghbr P m n) \<ge> 0 then waiting else vars_stat (rb n) m)"
proof (induction ps arbitrary: b rb)
  case Nil
  show ?case by simp
next
  case (Cons p ps)
  obtain m' n' where p: "p = (m', n')" by (cases p)
  obtain b' rb' where step: "InitRecv_body P T nvars p (b, rb) = (b', rb')"
    by (cases "InitRecv_body P T nvars p (b, rb)")
  have rb': "vars_stat (rb' n) m =
      (if (m, n) = (m', n') \<and> gid (nghbr P m n) \<ge> 0 then waiting else vars_stat (rb n) m)"
    using step unfolding p InitRecv_body_def
    by (auto simp: Let_def split: if_splits)
  have "fold (InitRecv_body P T nvars) (p # ps) (b, rb) = fold (InitRecv_body P T nvars) ps (b', rb')"
    by (simp add: step)
  then show ?case
    using Cons.IH [of b' rb'] rb' by (auto simp: p)
qed

lemma InitRecv_status:
  "fst (InitRecv P T nvars recv_buf) =
     (if \<exists>m n. 0 \<le> m \<and> m < nmb_thispack P \<and> 0 \<le> n \<and> n < nnghbr P \<and> MPI_PARALLEL_ENABLED P
            \<and> gid (nghbr P m n) \<ge> 0 \<and> rank (nghbr P m n) \<noteq> my_rank P \<and> \<not> irecv_success T m n
      then fail else complete)"
proof -
  have flag: "fst (fold (InitRecv_body P T nvars) (mb_nghbr_pairs P) (True, recv_buf)) =
      (\<not> (\<exists>m n. 0 \<le> m \<and> m < nmb_thispack P \<and> 0 \<le> n \<and> n < nnghbr P \<and> MPI_PARALLEL_ENABLED P
            \<and> gid (nghbr P m n) \<ge> 0 \<and> rank (nghbr P m n) \<noteq> my_rank P \<and> \<not> irecv_success T m n))"
    unfolding InitRecv_fold_flag set_mb_nghbr_pairs remote_nghbr_def by fastforce
  show ?thesis
    unfolding InitRecv_def Let_def fst_conv flag by simp
qed

lemma InitRecv_stat:
  "vars_stat (snd (InitRecv P T nvars recv_buf) n) m =
        (if 0 \<le> m \<and> m < nmb_thispack P \<and> 0 \<le> n \<and> n < nnghbr P \<and> gid (nghbr P m n) \<ge> 0
         then waiting else vars_stat (recv_buf n) m)"
  unfolding InitRecv_def Let_def snd_conv InitRecv_fold_stat set_mb_nghbr_pairs by auto

section \<open>InitRecv\<close>

text \<open>
  Claim C4. \<^verbatim>\<open>InitRecv\<close> returns \<^verbatim>\<open>fail\<close> exactly when the registration of some receive
  fails (a receive is registered for every block and slot whose neighbour exists and lives
  on another rank, in a build with MPI) and \<^verbatim>\<open>complete\<close> otherwise. On return the receive
  status flag is \<^verbatim>\<open>waiting\<close> for every block and slot whose neighbour gid is at least 0,
  on the own rank or not, and every other flag is what it was.
\<close>

theorem InitRecv_sets_waiting:
  "fst (InitRecv P T nvars recv_buf) =
     (if \<exists>m n. 0 \<le> m \<and> m < nmb_thispack P \<and> 0 \<le> n \<and> n < nnghbr P \<and> MPI_PARALLEL_ENABLED P
            \<and> gid (nghbr P m n) \<ge> 0 \<and> rank (nghbr P m n) \<noteq> my_rank P \<and> \<not> irecv_success T m n
      then fail else complete)
   \<and> (\<forall>m n. vars_stat (snd (InitRecv P T nvars recv_buf) n) m =
        (if 0 \<le> m \<and> m < nmb_thispack P \<and> 0 \<le> n \<and> n < nnghbr P \<and> gid (nghbr P m n) \<ge> 0
         then waiting else vars_stat (recv_buf n) m))"
  using InitRecv_status [of P T nvars recv_buf] InitRecv_stat [of P T nvars recv_buf]
  by simp

theorem InitRecv_sets_waiting_witness:
  "fst (InitRecv pack_ex transport_ok 5 recv_buf_ex) = complete
   \<and> vars_stat (snd (InitRecv pack_ex transport_ok 5 recv_buf_ex) 0) 0 = waiting
   \<and> vars_stat (snd (InitRecv pack_ex transport_ok 5 recv_buf_ex) 1) 0 = waiting
   \<and> vars_stat (snd (InitRecv pack_ex transport_ok 5 recv_buf_ex) 2) 0 = undef"
  using InitRecv_sets_waiting [of pack_ex transport_ok 5 recv_buf_ex]
  by (simp add: pack_ex_def transport_ok_def recv_buf_ex_def nb_none_def)

text \<open>
  Claim C10. When \<^verbatim>\<open>InitRecv\<close> returns \<^verbatim>\<open>fail\<close>, the receive status flag of every block
  and slot with an existing neighbour has been set to \<^verbatim>\<open>waiting\<close> all the same: the
  failure path does not undo or skip the status update.
\<close>

theorem InitRecv_fail_keeps_waiting:
  assumes "InitRecv P T nvars recv_buf = (fail, recv_buf')"
    and "0 \<le> m" and "m < nmb_thispack P" and "0 \<le> n" and "n < nnghbr P"
    and "gid (nghbr P m n) \<ge> 0"
  shows "vars_stat (recv_buf' n) m = waiting"
proof -
  have "recv_buf' = snd (fold (InitRecv_body P T nvars) (mb_nghbr_pairs P) (True, recv_buf))"
    using assms(1) by (simp add: InitRecv_def Let_def)
  moreover have "(m, n) \<in> set (mb_nghbr_pairs P)"
    using assms(2-5) by (simp add: set_mb_nghbr_pairs)
  ultimately show ?thesis
    using assms(6) by (simp add: InitRecv_fold_stat)
qed

theorem InitRecv_fail_keeps_waiting_witness:
  "InitRecv pack_ex transport_failing 5 recv_buf_ex =
     (fail, snd (InitRecv pack_ex transport_failing 5 recv_buf_ex))
   \<and> gid (nghbr pack_ex 0 1) \<ge> 0
   \<and> vars_stat (snd (InitRecv pack_ex transport_failing 5 recv_buf_ex) 1) 0 = waiting"
proof -
  have st: "fst (InitRecv pack_ex transport_failing 5 recv_buf_ex) = fail"
    unfolding InitRecv_status
    by (auto simp: pack_ex_def transport_failing_def intro!: exI [of _ 0])
  have eq: "InitRecv pack_ex transport_failing 5 recv_buf_ex =
     (fail, snd (InitRecv pack_ex transport_failing 5 recv_buf_ex))"
    using st by (metis prod.collapse)
  have g: "gid (nghbr pack_ex 0 1) \<ge> 0" by (simp add: pack_ex_def)
  have "vars_stat (snd (InitRecv pack_ex transport_failing 5 recv_buf_ex) 1) 0 = waiting"
    using InitRecv_fail_keeps_waiting [OF eq _ _ _ _ g] by (simp add: pack_ex_def)
  with eq g show ?thesis by simp
qed

section \<open>Neighbour slots\<close>

text \<open>
  Claim C5. For a three-dimensional mesh with refinement, \<^verbatim>\<open>NeighborIndx\<close> maps the 56
  argument tuples that \<^verbatim>\<open>InitializeBuffers\<close> enumerates one-to-one onto the slots 0 to 55:
  the tuples are pairwise distinct, no two of them share a slot and every slot is reached.
  The categories take the slots in the fixed order: x1-faces 0 to 7, x2-faces 8 to 15,
  x1x2-edges 16 to 23, x3-faces 24 to 31, x3x1-edges 32 to 39, x2x3-edges 40 to 47,
  corners 48 to 55.
\<close>

theorem NeighborIndx_bijection:
  "bij_betw NeighborIndx_of (set (InitializeBuffers_args True True True)) {0..55}
   \<and> distinct (InitializeBuffers_args True True True)
   \<and> map NeighborIndx_of (x1face_args 2 2) = [0..7]
   \<and> map NeighborIndx_of (x2face_args 2 2) = [8..15]
   \<and> map NeighborIndx_of (x1x2edge_args 2) = [16..23]
   \<and> map NeighborIndx_of (x3face_args 2 2) = [24..31]
   \<and> map NeighborIndx_of (x3x1edge_args 2) = [32..39]
   \<and> map NeighborIndx_of (x2x3edge_args 2) = [40..47]
   \<and> map NeighborIndx_of corner_args = [48..55]"
proof -
  have m: "map NeighborIndx_of (InitializeBuffers_args True True True) = [0..55]"
    by code_simp
  have d: "distinct (InitializeBuffers_args True True True)" by code_simp
  have "distinct (map NeighborIndx_of (InitializeBuffers_args True True True))"
    unfolding m by simp
  then have inj: "inj_on NeighborIndx_of (set (InitializeBuffers_args True True True))"
    by (simp add: distinct_map)
  have img: "NeighborIndx_of ` set (InitializeBuffers_args True True True) = {0..55}"
    using arg_cong [OF m, of set] by simp
  have b: "bij_betw NeighborIndx_of (set (InitializeBuffers_args True True True)) {0..55}"
    using inj img by (simp add: bij_betw_def)
  have c1: "map NeighborIndx_of (x1face_args 2 2) = [0..7]" by code_simp
  have c2: "map NeighborIndx_of (x2face_args 2 2) = [8..15]" by code_simp
  have c3: "map NeighborIndx_of (x1x2edge_args 2) = [16..23]" by code_simp
  have c4: "map NeighborIndx_of (x3face_args 2 2) = [24..31]" by code_simp
  have c5: "map NeighborIndx_of (x3x1edge_args 2) = [32..39]" by code_simp
  have c6: "map NeighborIndx_of (x2x3edge_args 2) = [40..47]" by code_simp
  have c7: "map NeighborIndx_of corner_args = [48..55]" by code_simp
  show ?thesis using b d c1 c2 c3 c4 c5 c6 c7 by simp
qed

section \<open>The radiation update\<close>

lemma ExpRKUpdate_outcome:
  "ExpRKUpdate P num_species num_energy_bins f0 =
     (if ExpRKUpdate_space P (num_species * num_energy_bins) = [] then Returned complete f0
      else Exited)"
  by (cases "ExpRKUpdate_space P (num_species * num_energy_bins)")
     (simp_all add: ExpRKUpdate_def ExpRKUpdate_kernel_def)

text \<open>
  Claim C9 does not hold of the code. \<^verbatim>\<open>ExpRKUpdate\<close> is declared to return a
  \<^verbatim>\<open>TaskStatus\<close> and its last statement is \<^verbatim>\<open>return TaskStatus::complete\<close>, but when its
  kernel has a cell to work on the process is ended from inside the kernel (line 451, after
  the debugging output and before \<^verbatim>\<open>f0\<close> is written): for one block, one species, one
  energy bin and two cells no \<^verbatim>\<open>TaskStatus\<close> reaches the caller. The step returns
  \<^verbatim>\<open>complete\<close> only for an empty iteration space (lemma \<open>ExpRKUpdate_outcome\<close>).
\<close>

theorem ExpRKUpdate_exits:
  "ExpRKUpdate pack_ex 1 1 f0 = Exited
   \<and> ExpRKUpdate_space pack_ex (1 * 1) = [(0, 0, 0, 1, 1), (0, 0, 0, 2, 1)]"
proof -
  have s: "ExpRKUpdate_space pack_ex (1 * 1) = [(0, 0, 0, 1, 1), (0, 0, 0, 2, 1)]"
    by (simp add: ExpRKUpdate_space_def pack_ex_def indcs_ex_def upto.simps)
  show ?thesis unfolding ExpRKUpdate_outcome s by simp
qed

section \<open>Facts about folds and index ranges\<close>

lemma fold_upd_same:
  "(\<forall>x \<in> set xs. c x = u (p x)) \<Longrightarrow> fold (\<lambda>x u. u(p x := c x)) xs u = u"
  by (induction xs) simp_all

lemma fold_upd_other:
  "(\<forall>x \<in> set xs. p x \<noteq> q) \<Longrightarrow> fold (\<lambda>x u. u(p x := c x)) xs u q = u q"
  by (induction xs arbitrary: u) auto

lemma fold_upd_at:
  "fold (\<lambda>x u. u(x := g x)) xs u y = (if y \<in> set xs then g y else u y)"
  by (induction xs arbitrary: u) simp_all

lemma fold_upd_col:
  "fold (\<lambda>j e. e((m, k, j, i) := g j)) xs e (m', k', j', i')
     = (if m' = m \<and> k' = k \<and> i' = i \<and> j' \<in> set xs then g j' else e (m', k', j', i'))"
  by (induction xs arbitrary: e) auto

lemma fold_pointwise:
  "distinct ps \<Longrightarrow>
   fold (\<lambda>p f. f(p := g p (f p))) ps f0 q = (if q \<in> set ps then g q (f0 q) else f0 q)"
  by (induction ps arbitrary: f0) auto

lemma set_range4:
  "set (range4 al au bl bu cl cu dl du) = {al..au} \<times> {bl..bu} \<times> {cl..cu} \<times> {dl..du}"
  by (simp add: range4_def)

lemma distinct_range4: "distinct (range4 al au bl bu cl cu dl du)"
  by (simp add: range4_def distinct_product)

lemma fold_writes_miss:
  assumes "\<And>w s. rd (app w s) = (if hit w then val w else rd s)"
  shows "(\<forall>w \<in> set ws. \<not> hit w) \<Longrightarrow> rd (fold app ws s) = rd s"
  by (induction ws arbitrary: s) (simp_all add: assms)

lemma fold_writes_hit:
  assumes "\<And>w s. rd (app w s) = (if hit w then val w else rd s)"
  shows "(\<exists>w \<in> set ws. hit w) \<Longrightarrow> (\<forall>w \<in> set ws. hit w \<longrightarrow> val w = c) \<Longrightarrow>
         rd (fold app ws s) = c"
proof (induction ws arbitrary: s)
  case Nil
  then show ?case by simp
next
  case (Cons w ws)
  show ?case
  proof (cases "\<exists>w' \<in> set ws. hit w'")
    case True
    then show ?thesis using Cons by simp
  next
    case False
    then have w: "hit w" using Cons.prems(1) by auto
    have "rd (fold app ws (app w s)) = rd (app w s)"
      using False fold_writes_miss [where rd = rd and app = app and hit = hit and val = val
        and ws = ws and s = "app w s"] assms by simp
    then show ?thesis using w Cons.prems(2) by (simp add: assms)
  qed
qed

lemma fold_preserves:
  assumes "\<And>x s. rd (f x s) = rd s"
  shows "rd (fold f xs s) = rd s"
  by (induction xs arbitrary: s) (simp_all add: assms)

text \<open>A loop over teams of which each reads and writes its own column only leaves in the
  column of a team what that team alone computes from the initial state.\<close>

lemma fold_column_other:
  assumes "\<And>t' s. t' \<noteq> t \<Longrightarrow> view (step t' s) = view s"
  shows "t \<notin> set ts \<Longrightarrow> view (fold step ts s) = view s"
  by (induction ts arbitrary: s) (auto simp: assms)

lemma fold_column_local:
  assumes other: "\<And>t' s. t' \<noteq> t \<Longrightarrow> view (step t' s) = view s"
    and loc: "\<And>s s'. view s = view s' \<Longrightarrow> view (step t s) = view (step t s')"
  shows "distinct ts \<Longrightarrow> t \<in> set ts \<Longrightarrow> view (fold step ts s) = view (step t s)"
proof (induction ts arbitrary: s)
  case Nil
  then show ?case by simp
next
  case (Cons a ts)
  show ?case
  proof (cases "a = t")
    case True
    then have "t \<notin> set ts" using Cons.prems(1) by simp
    then show ?thesis using fold_column_other [of t view step ts "step t s"] other True by simp
  next
    case False
    then have "t \<in> set ts" "distinct ts" using Cons.prems by simp_all
    then have "view (fold step ts (step a s)) = view (step t (step a s))" by (rule Cons.IH [rotated])
    also have "\<dots> = view (step t s)" by (rule loc) (rule other [OF False])
    finally show ?thesis by simp
  qed
qed

section \<open>Facts about the example configurations\<close>

lemma pack_ex_sizes: "nmb_thispack pack_ex = 1" "nnghbr pack_ex = 13" "MPI_PARALLEL_ENABLED pack_ex"
  by (simp_all add: pack_ex_def)

lemma pack_ex_dx: "dx1 (mb_size pack_ex m) = 1" "dx2 (mb_size pack_ex m) = 1" "dx3 (mb_size pack_ex m) = 1"
  by (simp_all add: pack_ex_def size_ex_def)

lemma dx2_ex: "dx2 (mb_size pack_ex m) = 1"
  by (simp add: pack_ex_def size_ex_def)

section \<open>Rounding\<close>

lemma round_even_bounds: "\<lfloor>r\<rfloor> \<le> round_even r \<and> round_even r \<le> \<lceil>r\<rceil>"
proof -
  have "\<lfloor>r\<rfloor> \<le> \<lceil>r\<rceil>" by (rule floor_le_ceiling)
  moreover have "r - real_of_int \<lfloor>r\<rfloor> \<noteq> 0 \<Longrightarrow> \<lceil>r\<rceil> = \<lfloor>r\<rfloor> + 1"
    by (metis ceiling_altdef eq_iff_diff_eq_0)
  moreover have "r - real_of_int \<lfloor>r\<rfloor> = 0 \<Longrightarrow> round_even r = \<lfloor>r\<rfloor>"
    by (simp add: round_even_def)
  moreover have "round_even r = \<lfloor>r\<rfloor> \<or> round_even r = \<lfloor>r\<rfloor> + 1"
    by (simp add: round_even_def Let_def)
  ultimately show ?thesis
    by (cases "r - real_of_int \<lfloor>r\<rfloor> = 0") auto
qed

lemma round_even_of_int: "round_even (real_of_int n) = n"
  by (simp add: round_even_def)

lemma ulp_pos: "0 < ulp x"
  by (simp add: ulp_def)

lemma fl_zero: "fl 0 = 0"
  by (simp add: fl_def)

lemma fl_nonneg: "0 \<le> x \<Longrightarrow> 0 \<le> fl x"
proof -
  assume x: "0 \<le> x"
  have "0 \<le> x / ulp x" using x ulp_pos [of x] by simp
  hence "0 \<le> \<lfloor>x / ulp x\<rfloor>" by simp
  hence "0 \<le> round_even (x / ulp x)" using round_even_bounds [of "x / ulp x"] by linarith
  thus ?thesis using ulp_pos [of x] by (simp add: fl_def)
qed

lemma fl_nonpos: "x \<le> 0 \<Longrightarrow> fl x \<le> 0"
proof -
  assume x: "x \<le> 0"
  have "x / ulp x \<le> 0" using x ulp_pos [of x] by (simp add: divide_nonpos_pos)
  hence "\<lceil>x / ulp x\<rceil> \<le> 0" by (simp add: ceiling_le_zero)
  hence "round_even (x / ulp x) \<le> 0" using round_even_bounds [of "x / ulp x"] by linarith
  thus ?thesis using ulp_pos [of x] by (simp add: fl_def mult_nonneg_nonpos)
qed

text \<open>A value below 1 in magnitude is at most \<open>2 ^ 53\<close> units in the last place, and that many
  units are at most 1.\<close>

lemma ulp_bound:
  assumes "x \<noteq> 0" "\<bar>x\<bar> < 1"
  shows "\<bar>x\<bar> / ulp x \<le> 2 ^ 53 \<and> ulp x * 2 ^ 53 \<le> 1"
proof -
  define e where "e = \<lfloor>log 2 \<bar>x\<bar>\<rfloor>"
  define e' where "e' = max e (- 1022)"
  have pos: "0 < \<bar>x\<bar>" using assms by simp
  have "log 2 \<bar>x\<bar> < 0" using assms pos by simp
  hence "e < 0" unfolding e_def by (simp add: floor_less_iff)
  hence e: "e \<le> - 1" by simp
  hence e': "e' \<le> - 1" unfolding e'_def by simp
  have u: "ulp x = 2 powr (real_of_int e' - 52)" by (simp add: ulp_def e'_def e_def)
  have "(2::real) powr (real_of_int e' - 52) * 2 powr 53 = 2 powr (real_of_int e' - 52 + 53)"
    by (simp only: powr_add)
  hence p53: "ulp x * 2 ^ 53 = 2 powr (real_of_int e' + 1)" unfolding u by (simp add: add.commute)
  have "log 2 \<bar>x\<bar> < real_of_int e + 1" unfolding e_def by linarith
  also have "\<dots> \<le> real_of_int e' + 1" unfolding e'_def by simp
  finally have "log 2 \<bar>x\<bar> < real_of_int e' + 1" .
  hence "\<bar>x\<bar> < 2 powr (real_of_int e' + 1)" using pos by (simp add: log_less_iff)
  hence "\<bar>x\<bar> < ulp x * 2 ^ 53" using p53 by simp
  hence A: "\<bar>x\<bar> / ulp x \<le> 2 ^ 53" using ulp_pos [of x] by (simp add: pos_divide_le_eq mult.commute)
  have "2 powr (real_of_int e' + 1) \<le> 2 powr 0" using e' by (simp del: powr_zero_eq_one)
  hence "ulp x * 2 ^ 53 \<le> 1" using p53 by simp
  with A show ?thesis by simp
qed

lemma fl_le_one: assumes "0 \<le> x" "x < 1" shows "fl x \<le> 1"
proof (cases "x = 0")
  case True thus ?thesis by (simp add: fl_def)
next
  case False
  have b: "x / ulp x \<le> 2 ^ 53" "ulp x * 2 ^ 53 \<le> 1" using ulp_bound [of x] assms False by auto
  have "\<lceil>x / ulp x\<rceil> \<le> 2 ^ 53" using b(1) by (simp add: ceiling_le_iff)
  hence "round_even (x / ulp x) \<le> 2 ^ 53" using round_even_bounds [of "x / ulp x"] by linarith
  hence "real_of_int (round_even (x / ulp x)) \<le> 2 ^ 53" by (metis of_int_le_iff of_int_numeral of_int_power)
  hence "ulp x * real_of_int (round_even (x / ulp x)) \<le> ulp x * 2 ^ 53"
    using ulp_pos [of x] by (simp add: mult_left_mono)
  thus ?thesis using b(2) False by (simp add: fl_def)
qed

lemma fl_ge_minus_one: assumes "x \<le> 0" "- 1 < x" shows "- 1 \<le> fl x"
proof (cases "x = 0")
  case True thus ?thesis by (simp add: fl_def)
next
  case False
  have b: "\<bar>x\<bar> / ulp x \<le> 2 ^ 53" "ulp x * 2 ^ 53 \<le> 1" using ulp_bound [of x] assms False by auto
  have "- (2 ^ 53) \<le> x / ulp x" using b(1) assms by simp
  hence "- (2 ^ 53) \<le> \<lfloor>x / ulp x\<rfloor>" by (simp add: le_floor_iff)
  hence "- (2 ^ 53) \<le> round_even (x / ulp x)" using round_even_bounds [of "x / ulp x"] by linarith
  hence "- (2 ^ 53) \<le> real_of_int (round_even (x / ulp x))"
    by (metis of_int_le_iff of_int_numeral of_int_power of_int_minus)
  hence "ulp x * (- (2 ^ 53)) \<le> ulp x * real_of_int (round_even (x / ulp x))"
    using ulp_pos [of x] by (simp only: mult_le_cancel_left_pos)
  thus ?thesis using b(2) False by (simp add: fl_def)
qed

text \<open>The rounding of a value in the binade of exponent \<open>e\<close>; a value with at most 53
  significant bits is its own rounding.\<close>

lemma fl_eval:
  assumes "2 powr real_of_int e \<le> \<bar>x\<bar>" "\<bar>x\<bar> < 2 powr (real_of_int e + 1)" "- 1022 \<le> e"
  shows "fl x = 2 powr (real_of_int e - 52)
                  * real_of_int (round_even (x / 2 powr (real_of_int e - 52)))"
proof -
  have pos: "0 < \<bar>x\<bar>" using assms(1) by (smt (verit) powr_gt_zero)
  have "\<lfloor>log 2 \<bar>x\<bar>\<rfloor> = e" using assms(1,2) pos by (simp add: floor_log_eq_powr_iff)
  hence u: "ulp x = 2 powr (real_of_int e - 52)" using assms(3) by (simp add: ulp_def max_def)
  show ?thesis using pos by (simp add: fl_def u)
qed

lemma fl_exact:
  assumes "2 powr real_of_int e \<le> \<bar>x\<bar>" "\<bar>x\<bar> < 2 powr (real_of_int e + 1)" "- 1022 \<le> e"
    and "x / 2 powr (real_of_int e - 52) = real_of_int n"
  shows "fl x = x"
  unfolding fl_eval [OF assms(1-3)] assms(4) round_even_of_int
  using assms(4) by (simp add: field_simps)

lemma fl_exact_values:
  "fl 1 = 1" "fl (- 1) = - 1" "fl 2 = 2" "fl (- 2) = - 2" "fl 3 = 3" "fl (- 3) = - 3"
  "fl (- (3 / 2)) = - (3 / 2)" "fl (- (1 / 2)) = - (1 / 2)" "fl (- (3 / 8)) = - (3 / 8)"
proof -
  show "fl 1 = 1"
    by (rule fl_exact [where e = 0 and n = "2 ^ 52"]) (simp_all add: powr_neg_numeral)
  show "fl (- 1) = - 1"
    by (rule fl_exact [where e = 0 and n = "- (2 ^ 52)"]) (simp_all add: powr_neg_numeral)
  show "fl 2 = 2"
    by (rule fl_exact [where e = 1 and n = "2 ^ 52"]) (simp_all add: powr_neg_numeral)
  show "fl (- 2) = - 2"
    by (rule fl_exact [where e = 1 and n = "- (2 ^ 52)"]) (simp_all add: powr_neg_numeral)
  show "fl 3 = 3"
    by (rule fl_exact [where e = 1 and n = "3 * 2 ^ 51"]) (simp_all add: powr_neg_numeral)
  show "fl (- 3) = - 3"
    by (rule fl_exact [where e = 1 and n = "- 3 * 2 ^ 51"]) (simp_all add: powr_neg_numeral)
  show "fl (- (3 / 2)) = - (3 / 2)"
    by (rule fl_exact [where e = 0 and n = "- 3 * 2 ^ 51"]) (simp_all add: powr_neg_numeral)
  show "fl (- (1 / 2)) = - (1 / 2)"
    by (rule fl_exact [where e = "- 1" and n = "- (2 ^ 52)"]) (simp_all add: powr_neg_numeral)
  show "fl (- (3 / 8)) = - (3 / 8)"
    by (rule fl_exact [where e = "- 2" and n = "- 3 * 2 ^ 51"]) (simp_all add: powr_neg_numeral)
qed

text \<open>The double nearest to 1/10, and the quotient and the fractional offset that the
  kernels compute from a shift distance -1/2 and that cell width: the exact quotient is just
  above -5 and is rounded to -5 before the conversion to \<^verbatim>\<open>int\<close>, while \<^verbatim>\<open>fmod\<close> works
  on the exact quotient and leaves almost a whole cell.\<close>

lemma fl_tenth: "fl (1 / 10) = 3602879701896397 / 2 ^ 55"
proof -
  have "fl (1 / 10) = 2 powr (real_of_int (- 4) - 52)
      * real_of_int (round_even ((1 / 10) / 2 powr (real_of_int (- 4) - 52)))"
    by (rule fl_eval) (simp_all add: powr_neg_numeral)
  also have "\<dots> = 3602879701896397 / 2 ^ 55"
    by (simp add: powr_neg_numeral round_even_def Let_def)
  finally show ?thesis .
qed

lemma fl_quotient_tenth: "fl (- (1 / 2) / fl (1 / 10)) = - 5"
proof -
  have "fl (- (1 / 2) / fl (1 / 10)) = fl (- (18014398509481984 / 3602879701896397))"
    by (simp add: fl_tenth)
  also have "\<dots> = 2 powr (real_of_int 2 - 52)
      * real_of_int (round_even (- (18014398509481984 / 3602879701896397) / 2 powr (real_of_int 2 - 52)))"
    by (rule fl_eval) (simp_all add: powr_neg_numeral)
  also have "\<dots> = - 5"
    by (simp add: powr_neg_numeral round_even_def Let_def)
  finally show ?thesis .
qed

lemma fl_fraction_tenth:
  "fl (fmod (- (1 / 2)) (fl (1 / 10)) / fl (1 / 10)) = - (1 - 1 / 2 ^ 52)"
proof -
  have r: "fmod (- (1 / 2)) (fl (1 / 10)) / fl (1 / 10) = - (3602879701896396 / 3602879701896397)"
    by (simp add: fl_tenth fmod_def static_cast_int_def)
  have "fl (- (3602879701896396 / 3602879701896397)) = 2 powr (real_of_int (- 1) - 52)
      * real_of_int (round_even (- (3602879701896396 / 3602879701896397) / 2 powr (real_of_int (- 1) - 52)))"
    by (rule fl_eval) (simp_all add: powr_neg_numeral)
  also have "\<dots> = - (1 - 1 / 2 ^ 52)"
    by (simp add: powr_neg_numeral round_even_def Let_def)
  finally show ?thesis unfolding r .
qed

section \<open>Shift distance, integer offset and fractional offset\<close>

lemma static_cast_int_frac: "\<bar>x - real_of_int (static_cast_int x)\<bar> < 1"
  unfolding static_cast_int_def by (auto; linarith)

lemma static_cast_int_nonneg: "x \<ge> 0 \<Longrightarrow> 0 \<le> x - real_of_int (static_cast_int x)"
  unfolding static_cast_int_def by simp

lemma static_cast_int_nonpos: "x \<le> 0 \<Longrightarrow> x - real_of_int (static_cast_int x) \<le> 0"
  unfolding static_cast_int_def by (auto simp: abs_if)

lemma static_cast_int_sign:
  "(0 \<le> x \<longrightarrow> 0 \<le> static_cast_int x) \<and> (x \<le> 0 \<longrightarrow> static_cast_int x \<le> 0)"
  unfolding static_cast_int_def by (auto simp: ceiling_le_zero)

text \<open>The quotient of \<^verbatim>\<open>fmod\<close> by its divisor is the exact quotient less its integer part.\<close>

lemma fmod_quotient:
  assumes "d \<noteq> 0"
  shows "fmod y d / d = y / d - real_of_int (static_cast_int (y / d))"
  using assms unfolding fmod_def by (simp add: field_simps)

lemma orb_joffset_sign:
  assumes "0 < dx2 (mb_size P m)"
  shows "(0 \<le> y \<longrightarrow> 0 \<le> orb_joffset P m y) \<and> (y \<le> 0 \<longrightarrow> orb_joffset P m y \<le> 0)"
proof -
  let ?d = "dx2 (mb_size P m)"
  have "0 \<le> y \<Longrightarrow> 0 \<le> fl (y / ?d)" using assms by (intro fl_nonneg) simp
  moreover have "y \<le> 0 \<Longrightarrow> fl (y / ?d) \<le> 0"
    using assms by (intro fl_nonpos) (simp add: divide_nonpos_pos)
  ultimately show ?thesis
    unfolding orb_joffset_def using static_cast_int_sign [of "fl (y / ?d)"] by blast
qed

lemma orb_epsi_bounds:
  assumes "0 < dx2 (mb_size P m)"
  shows "- 1 \<le> orb_epsi P m y \<and> orb_epsi P m y \<le> 1
    \<and> (0 \<le> y \<longrightarrow> 0 \<le> orb_epsi P m y) \<and> (y \<le> 0 \<longrightarrow> orb_epsi P m y \<le> 0)"
proof -
  let ?d = "dx2 (mb_size P m)"
  let ?r = "fmod y ?d / ?d"
  have d: "?d \<noteq> 0" using assms by simp
  have r: "?r = y / ?d - real_of_int (static_cast_int (y / ?d))" by (rule fmod_quotient [OF d])
  have lt: "?r < 1" "- 1 < ?r"
    unfolding r using static_cast_int_frac [of "y / ?d"] by linarith+
  have e: "orb_epsi P m y = fl ?r" by (simp add: orb_epsi_def)
  have pos: "0 \<le> ?r" if "0 \<le> y"
  proof -
    have "0 \<le> y / ?d" using that assms by simp
    then show ?thesis unfolding r by (rule static_cast_int_nonneg)
  qed
  have neg: "?r \<le> 0" if "y \<le> 0"
  proof -
    have "y / ?d \<le> 0" using that assms by (simp add: divide_nonpos_pos)
    then show ?thesis unfolding r by (rule static_cast_int_nonpos)
  qed
  have up: "fl ?r \<le> 1"
  proof (cases "0 \<le> ?r")
    case True
    then show ?thesis using lt(1) by (rule fl_le_one)
  next
    case False
    then have "fl ?r \<le> 0" by (intro fl_nonpos) simp
    then show ?thesis by simp
  qed
  have low: "- 1 \<le> fl ?r"
  proof (cases "?r \<le> 0")
    case True
    then show ?thesis using lt(2) by (rule fl_ge_minus_one)
  next
    case False
    then have "0 \<le> fl ?r" by (intro fl_nonneg) simp
    then show ?thesis by simp
  qed
  show ?thesis unfolding e using up low pos neg fl_nonneg [of ?r] fl_nonpos [of ?r] by blast
qed

text \<open>The x1 position that \<^verbatim>\<open>RecvAndUnpackFC_Orb\<close> uses for the shift distance does not
  depend on the block or the cell: it is the unassigned outer variable.\<close>

lemma FC_x1_uninit: "FC_x1 P E t = x1_uninit E t"
  by (cases t) (simp add: FC_x1_def Let_def)

lemma yshear_ex: "CC_yshear pack_ex shear_ex 0 1 = - (3 / 2)"
  by (simp add: CC_yshear_def orb_yshear_def CC_x1v_def pack_ex_def shear_ex_def indcs_ex_def
      size_ex_def fl_exact_values)

lemma joffset_ex: "orb_joffset pack_ex 0 (- (3 / 2)) = - 1"
  by (simp add: orb_joffset_def dx2_ex static_cast_int_def fl_exact_values)

lemma epsi_ex: "orb_epsi pack_ex 0 (- (3 / 2)) = - (1 / 2)"
  by (simp add: orb_epsi_def fmod_def dx2_ex static_cast_int_def fl_exact_values)

lemma FC_yshear_ex: "FC_yshear pack_ex shear_ex env_ex t = - (3 / 8)"
  by (simp add: FC_yshear_def FC_x1_uninit orb_yshear_def pack_ex_def shear_ex_def env_ex_def
      fl_exact_values)

text \<open>
  Claim C1 as stated fails for a negative shift distance. With shear rate 3, x1 position
  1/2, time step 1 and cell width 1 the shift distance is -3/2 (every value and every
  intermediate result is a double, so nothing is rounded): the integer offset the code
  computes is -1 and not the floor -2, and the fractional offset is -1/2, outside [0,1).
\<close>

theorem orb_offsets_floor_counterexample:
  "\<not> (orb_joffset pack_ex 0 (CC_yshear pack_ex shear_ex 0 1)
        = \<lfloor>CC_yshear pack_ex shear_ex 0 1 / dx2 (mb_size pack_ex 0)\<rfloor>
      \<and> 0 \<le> orb_epsi pack_ex 0 (CC_yshear pack_ex shear_ex 0 1)
      \<and> orb_epsi pack_ex 0 (CC_yshear pack_ex shear_ex 0 1) < 1)"
  unfolding yshear_ex joffset_ex epsi_ex dx2_ex by simp

text \<open>
  The integer offset and the fractional offset are rounded separately and need not add up
  to the quotient: for the shift distance -1/2 and the cell width 0.1 the kernels get the
  offset -5 and a fractional offset of almost -1.
\<close>

lemma orb_offsets_rounded_apart:
  assumes "dx2 (mb_size P m) = fl (1 / 10)"
  shows "orb_joffset P m (- (1 / 2)) = - 5 \<and> orb_epsi P m (- (1 / 2)) = - (1 - 1 / 2 ^ 52)"
  unfolding orb_joffset_def orb_epsi_def assms fl_quotient_tenth fl_fraction_tenth
  by (simp add: static_cast_int_def)

text \<open>
  Claim C1, amended. A team of either unpack kernel is the gather, the fluxes and the update
  carried out with an integer offset \<open>J\<close> and a fractional offset \<open>e\<close> that it computes in
  double arithmetic from its shift distance \<open>y\<close> and the positive cell width \<^verbatim>\<open>dx2\<close>, where
  the quotient that is converted to \<^verbatim>\<open>int\<close> is in the range of \<^verbatim>\<open>int\<close>. In
  \<^verbatim>\<open>RecvAndUnpackCC_Orb\<close> the shift distance of block \<open>m\<close> at x1 index \<open>i\<close> is the product of
  minus the shear rate \<^verbatim>\<open>qshear*omega0\<close>, the cell centre position and \<^verbatim>\<open>dt\<close>, each product
  rounded. In both kernels \<open>J\<close> is the rounded quotient \<open>y / dx2\<close> with its fractional part
  dropped (its floor when it is not negative, its ceiling when it is negative), \<open>e\<close> is the
  rounded quotient of \<^verbatim>\<open>fmod(y, dx2)\<close> by \<^verbatim>\<open>dx2\<close>, \<open>e\<close> lies between -1 and 1, and both have
  the sign of \<open>y\<close>: neither is negative for \<open>y \<ge> 0\<close>, neither is positive for \<open>y \<le> 0\<close>.
\<close>

theorem orb_offsets_truncate:
  assumes "0 < dx2 (mb_size P m)"
    and "int_range (fl (CC_yshear P S m i / dx2 (mb_size P m)))"
    and "int_range (fl (FC_yshear P S E (m, v, k', i') / dx2 (mb_size P m)))"
  shows "(let y = CC_yshear P S m i; d = dx2 (mb_size P m); q = fl (y / d);
              J = (if 0 \<le> q then \<lfloor>q\<rfloor> else \<lceil>q\<rceil>); e = fl (fmod y d / d)
          in y = fl (fl (- fl (qshear S * omega0 S) * CC_x1v P m i) * dt P)
             \<and> UnpackCC_team P S E rcon ob (m, n, k, i) u0
                 = UnpackCC_apply P S E rcon ob (m, n, k, i) J e u0
             \<and> - 1 \<le> e \<and> e \<le> 1
             \<and> (0 \<le> y \<longrightarrow> 0 \<le> J \<and> 0 \<le> e) \<and> (y \<le> 0 \<longrightarrow> J \<le> 0 \<and> e \<le> 0))
       \<and> (let y = FC_yshear P S E (m, v, k', i'); d = dx2 (mb_size P m); q = fl (y / d);
              J = (if 0 \<le> q then \<lfloor>q\<rfloor> else \<lceil>q\<rceil>); e = fl (fmod y d / d)
          in UnpackFC_team P S E rcon ob b0 (m, v, k', i') efld
                 = UnpackFC_apply P S E rcon ob b0 (m, v, k', i') J e efld
             \<and> - 1 \<le> e \<and> e \<le> 1
             \<and> (0 \<le> y \<longrightarrow> 0 \<le> J \<and> 0 \<le> e) \<and> (y \<le> 0 \<longrightarrow> J \<le> 0 \<and> e \<le> 0))"
proof -
  let ?d = "dx2 (mb_size P m)"
  have J: "(if 0 \<le> fl (y / ?d) then \<lfloor>fl (y / ?d)\<rfloor> else \<lceil>fl (y / ?d)\<rceil>) = orb_joffset P m y" for y
    by (simp add: orb_joffset_def static_cast_int_def)
  have e: "fl (fmod y ?d / ?d) = orb_epsi P m y" for y
    by (simp add: orb_epsi_def)
  have y: "CC_yshear P S m i = fl (fl (- fl (qshear S * omega0 S) * CC_x1v P m i) * dt P)"
    by (simp add: CC_yshear_def orb_yshear_def Let_def)
  have cc: "UnpackCC_team P S E rcon ob (m, n, k, i) u0
      = UnpackCC_apply P S E rcon ob (m, n, k, i) (orb_joffset P m (CC_yshear P S m i))
          (orb_epsi P m (CC_yshear P S m i)) u0"
    by (simp add: UnpackCC_team_def Let_def)
  have fc: "UnpackFC_team P S E rcon ob b0 (m, v, k', i') efld
      = UnpackFC_apply P S E rcon ob b0 (m, v, k', i')
          (orb_joffset P m (FC_yshear P S E (m, v, k', i')))
          (orb_epsi P m (FC_yshear P S E (m, v, k', i'))) efld"
    by (simp add: UnpackFC_team_def Let_def)
  show ?thesis
    unfolding Let_def J e
    using y cc fc orb_joffset_sign [OF assms(1)] orb_epsi_bounds [OF assms(1)]
    by simp
qed

lemma UnpackCC_apply_ex:
  "UnpackCC_apply pack_ex shear_ex env_ex dc orbbuf_ex (0, 0, 0, 1) (- 1) (- (1 / 2)) u0_ex
     (0, 0, 0, 1, 1) = 21 / 2"
  by (simp add: UnpackCC_apply_def UnpackCC_gather_def UnpackCC_load_def orb_flux_def
      DonorCellOrbAdvFlx_def pack_ex_def indcs_ex_def shear_ex_def env_ex_def orbbuf_ex_def
      buf_ex_def u0_ex_def upto.simps)

theorem orb_offsets_truncate_witness:
  "0 < dx2 (mb_size pack_ex 0)
   \<and> int_range (fl (CC_yshear pack_ex shear_ex 0 1 / dx2 (mb_size pack_ex 0)))
   \<and> int_range (fl (FC_yshear pack_ex shear_ex env_ex (0, 1, 0, 1) / dx2 (mb_size pack_ex 0)))
   \<and> CC_yshear pack_ex shear_ex 0 1 = - (3 / 2)
   \<and> UnpackCC_team pack_ex shear_ex env_ex dc orbbuf_ex (0, 0, 0, 1) u0_ex
       = UnpackCC_apply pack_ex shear_ex env_ex dc orbbuf_ex (0, 0, 0, 1) (- 1) (- (1 / 2)) u0_ex
   \<and> UnpackCC_team pack_ex shear_ex env_ex dc orbbuf_ex (0, 0, 0, 1) u0_ex (0, 0, 0, 1, 1) = 21 / 2
   \<and> FC_yshear pack_ex shear_ex env_ex (0, 1, 0, 1) = - (3 / 8)
   \<and> UnpackFC_team pack_ex shear_ex env_ex dc orbbuf_ex b_ex (0, 1, 0, 1) efld_ex
       = UnpackFC_apply pack_ex shear_ex env_ex dc orbbuf_ex b_ex (0, 1, 0, 1) 0 (- (3 / 8)) efld_ex"
proof -
  have d: "0 < dx2 (mb_size pack_ex 0)" by (simp add: dx2_ex)
  have r1: "int_range (fl (CC_yshear pack_ex shear_ex 0 1 / dx2 (mb_size pack_ex 0)))"
    by (simp add: yshear_ex dx2_ex fl_exact_values int_range_def)
  have r2: "int_range (fl (FC_yshear pack_ex shear_ex env_ex (0, 1, 0, 1) / dx2 (mb_size pack_ex 0)))"
    by (simp add: FC_yshear_ex dx2_ex fl_exact_values int_range_def)
  have f: "\<lceil>- (3 / 2 :: real)\<rceil> = - 1" "\<lceil>- (3 / 8 :: real)\<rceil> = 0" by (simp_all add: ceiling_eq_iff)
  have t: "fmod (- (3 / 2)) 1 = - (1 / 2)" "fmod (- (3 / 8)) 1 = - (3 / 8)"
    by (simp_all add: fmod_def static_cast_int_def f)
  show ?thesis
    using orb_offsets_truncate [OF d r1 r2, of dc orbbuf_ex 0 0 u0_ex b_ex efld_ex] d r1 r2
      UnpackCC_apply_ex
    by (simp add: Let_def yshear_ex FC_yshear_ex dx2_ex fl_exact_values f t)
qed

section \<open>Gating of the unpack by the receive tests\<close>

lemma orb_test_fold:
  "fold (orb_test_body P T) ps (b, e) =
     (b \<or> (\<exists>(m, n) \<in> set ps. remote_nghbr P m n \<and> \<not> test_flag T m n),
      e \<and> (\<forall>(m, n) \<in> set ps. remote_nghbr P m n \<longrightarrow> test_success T m n))"
proof (induction ps arbitrary: b e)
  case Nil
  show ?case by simp
next
  case (Cons p ps)
  obtain m n where p: "p = (m, n)" by (cases p)
  have step: "orb_test_body P T (m, n) (b, e) =
      (b \<or> (remote_nghbr P m n \<and> \<not> test_flag T m n),
       e \<and> (remote_nghbr P m n \<longrightarrow> test_success T m n))"
    unfolding orb_test_body_def remote_nghbr_def by auto
  show ?case
    unfolding p fold_simps step Cons.IH by auto
qed

lemma orb_test_all_eq:
  "orb_test_all P T =
     (MPI_PARALLEL_ENABLED P \<and> (\<exists>m n. 0 \<le> m \<and> m < nmb_thispack P \<and> 0 \<le> n \<and> n < nnghbr P
          \<and> remote_nghbr P m n \<and> \<not> test_flag T m n),
      \<not> (MPI_PARALLEL_ENABLED P \<and> (\<exists>m n. 0 \<le> m \<and> m < nmb_thispack P \<and> 0 \<le> n \<and> n < nnghbr P
          \<and> remote_nghbr P m n \<and> \<not> test_success T m n)))"
proof (cases "MPI_PARALLEL_ENABLED P")
  case False
  then show ?thesis by (simp add: orb_test_all_def)
next
  case True
  have 1: "(\<exists>(m, n) \<in> set (mb_nghbr_pairs P). remote_nghbr P m n \<and> \<not> test_flag T m n) =
      (\<exists>m n. 0 \<le> m \<and> m < nmb_thispack P \<and> 0 \<le> n \<and> n < nnghbr P
          \<and> remote_nghbr P m n \<and> \<not> test_flag T m n)"
    unfolding set_mb_nghbr_pairs by fastforce
  have 2: "(\<forall>(m, n) \<in> set (mb_nghbr_pairs P). remote_nghbr P m n \<longrightarrow> test_success T m n) =
      (\<not> (\<exists>m n. 0 \<le> m \<and> m < nmb_thispack P \<and> 0 \<le> n \<and> n < nnghbr P
          \<and> remote_nghbr P m n \<and> \<not> test_success T m n))"
    unfolding set_mb_nghbr_pairs by fastforce
  show ?thesis
    using True unfolding orb_test_all_def orb_test_fold 1 2 by simp
qed

text \<open>
  Claim C3, amended. In a build with MPI, \<^verbatim>\<open>RecvAndUnpackCC_Orb\<close> ends the process when
  some \<^verbatim>\<open>MPI_Test\<close> of a receive from another rank reports an error; otherwise, when some
  such receive has not completed, it returns \<^verbatim>\<open>incomplete\<close> and \<^verbatim>\<open>u0\<close> is unchanged;
  otherwise (every test succeeded and reported completion, or the build has no MPI) it
  returns \<^verbatim>\<open>complete\<close> with the unpacked array. So the unpack runs only when every
  outstanding receive has tested complete.
\<close>

theorem RecvAndUnpackCC_Orb_gated:
  "RecvAndUnpackCC_Orb P S T E rcon ob nvar u0 =
    (if MPI_PARALLEL_ENABLED P \<and> (\<exists>m n. 0 \<le> m \<and> m < nmb_thispack P \<and> 0 \<le> n \<and> n < nnghbr P
          \<and> remote_nghbr P m n \<and> \<not> test_success T m n)
     then Exited
     else if MPI_PARALLEL_ENABLED P \<and> (\<exists>m n. 0 \<le> m \<and> m < nmb_thispack P \<and> 0 \<le> n \<and> n < nnghbr P
          \<and> remote_nghbr P m n \<and> \<not> test_flag T m n)
     then Returned incomplete u0
     else Returned complete (UnpackCC_kernel P S E rcon ob nvar u0))"
  unfolding RecvAndUnpackCC_Orb_def orb_test_all_eq by (simp only: prod.case) metis

lemma remote_ex_0: "remote_nghbr pack_ex 0 0"
  by (simp add: remote_nghbr_def pack_ex_def)

lemma remote_ex_3: "remote_nghbr pack_ex 0 3"
  by (simp add: remote_nghbr_def pack_ex_def)

theorem RecvAndUnpackCC_Orb_gated_witness:
  "remote_nghbr pack_ex 0 0 \<and> \<not> test_flag transport_pending 0 0
   \<and> RecvAndUnpackCC_Orb pack_ex shear_ex transport_pending env_ex dc orbbuf_ex 1 u0_ex
       = Returned incomplete u0_ex"
proof -
  have a: "\<exists>m n. 0 \<le> m \<and> m < nmb_thispack pack_ex \<and> 0 \<le> n \<and> n < nnghbr pack_ex
          \<and> remote_nghbr pack_ex m n \<and> \<not> test_flag transport_pending m n"
    using remote_ex_0 by (intro exI [of _ 0]) (simp add: pack_ex_sizes transport_pending_def)
  have b: "\<not> (\<exists>m n. 0 \<le> m \<and> m < nmb_thispack pack_ex \<and> 0 \<le> n \<and> n < nnghbr pack_ex
          \<and> remote_nghbr pack_ex m n \<and> \<not> test_success transport_pending m n)"
    by (simp add: transport_pending_def)
  show ?thesis
    using RecvAndUnpackCC_Orb_gated [of pack_ex shear_ex transport_pending env_ex dc orbbuf_ex 1 u0_ex]
      a b remote_ex_0
    by (simp add: transport_pending_def pack_ex_sizes)
qed

text \<open>
  Claim C3 as stated fails when a test reports an error: the receive of slot 0 has not
  completed, the test of slot 3 fails, and the function ends the process instead of
  returning \<^verbatim>\<open>incomplete\<close>.
\<close>

theorem RecvAndUnpackCC_Orb_pending_counterexample:
  "remote_nghbr pack_ex 0 0 \<and> \<not> test_flag transport_mixed 0 0
   \<and> RecvAndUnpackCC_Orb pack_ex shear_ex transport_mixed env_ex dc orbbuf_ex 1 u0_ex
       \<noteq> Returned incomplete u0_ex"
proof -
  have e: "\<exists>m n. 0 \<le> m \<and> m < nmb_thispack pack_ex \<and> 0 \<le> n \<and> n < nnghbr pack_ex
          \<and> remote_nghbr pack_ex m n \<and> \<not> test_success transport_mixed m n"
    using remote_ex_3 by (intro exI [of _ 0] exI [of _ 3]) (simp add: pack_ex_sizes transport_mixed_def)
  have "RecvAndUnpackCC_Orb pack_ex shear_ex transport_mixed env_ex dc orbbuf_ex 1 u0_ex = Exited"
    unfolding RecvAndUnpackCC_Orb_def orb_test_all_eq using e by (simp add: pack_ex_sizes)
  then show ?thesis using remote_ex_0 by (simp add: transport_mixed_def)
qed

section \<open>Transport errors\<close>

lemma Clear_fold:
  "fold (Clear_body P T) ps (b, w) =
     (b \<and> (\<forall>(m, n) \<in> set ps. remote_nghbr P m n \<longrightarrow> wait_success T m n),
      w @ filter (\<lambda>(m, n). remote_nghbr P m n) ps)"
proof (induction ps arbitrary: b w)
  case Nil
  show ?case by simp
next
  case (Cons p ps)
  obtain m n where p: "p = (m, n)" by (cases p)
  have step: "Clear_body P T (m, n) (b, w) =
      (b \<and> (remote_nghbr P m n \<longrightarrow> wait_success T m n),
       w @ (if remote_nghbr P m n then [(m, n)] else []))"
    unfolding Clear_body_def remote_nghbr_def by auto
  show ?case
    unfolding p fold_simps step Cons.IH by auto
qed

lemma ClearSend_eq:
  "ClearSend P T =
     (if MPI_PARALLEL_ENABLED P \<and> (\<exists>m n. 0 \<le> m \<and> m < nmb_thispack P \<and> 0 \<le> n \<and> n < nnghbr P
           \<and> remote_nghbr P m n \<and> \<not> wait_success T m n)
      then fail else complete,
      if MPI_PARALLEL_ENABLED P then filter (\<lambda>(m, n). remote_nghbr P m n) (mb_nghbr_pairs P)
      else [])"
proof -
  have 1: "(\<forall>(m, n) \<in> set (mb_nghbr_pairs P). remote_nghbr P m n \<longrightarrow> wait_success T m n) =
      (\<not> (\<exists>m n. 0 \<le> m \<and> m < nmb_thispack P \<and> 0 \<le> n \<and> n < nnghbr P
          \<and> remote_nghbr P m n \<and> \<not> wait_success T m n))"
    unfolding set_mb_nghbr_pairs by fastforce
  show ?thesis
    unfolding ClearSend_def Clear_fold 1 Let_def by (simp only: fst_conv snd_conv append_Nil) auto
qed

lemma PackCC_send_fold_flag:
  "fst (fold (PackCC_send_body P T) ps (b, ob)) =
     (b \<and> (\<forall>(m, n) \<in> set ps. remote_nghbr P m n \<longrightarrow> isend_success T m n))"
proof (induction ps arbitrary: b ob)
  case Nil
  show ?case by simp
next
  case (Cons p ps)
  obtain m n where p: "p = (m, n)" by (cases p)
  obtain b' ob' where step: "PackCC_send_body P T (m, n) (b, ob) = (b', ob')"
    by (cases "PackCC_send_body P T (m, n) (b, ob)")
  have b': "b' = (b \<and> (remote_nghbr P m n \<longrightarrow> isend_success T m n))"
    using step unfolding PackCC_send_body_def remote_nghbr_def
    by (auto simp: Let_def split: if_splits)
  show ?case
    unfolding p fold_simps step Cons.IH b' by auto
qed

lemma PackCC_send_fold_recvbuf:
  "recvbuf_orb (snd (fold (PackCC_send_body P T) ps (b, ob))) = recvbuf_orb ob"
proof (induction ps arbitrary: b ob)
  case Nil
  show ?case by simp
next
  case (Cons p ps)
  obtain m n where p: "p = (m, n)" by (cases p)
  obtain b' ob' where step: "PackCC_send_body P T (m, n) (b, ob) = (b', ob')"
    by (cases "PackCC_send_body P T (m, n) (b, ob)")
  have ob': "recvbuf_orb ob' = recvbuf_orb ob"
    using step unfolding PackCC_send_body_def
    by (auto simp: Let_def split: if_splits)
  show ?case
    unfolding p fold_simps step Cons.IH ob' by simp
qed

lemma PackAndSendCC_Orb_outcome:
  "PackAndSendCC_Orb P S T a nvar ob =
     (if MPI_PARALLEL_ENABLED P \<and> isend_fails P T then Exited
      else Returned complete
        (if MPI_PARALLEL_ENABLED P
         then snd (fold (PackCC_send_body P T) (List.product [0..nmb_thispack P - 1] [8, 12])
                (True, PackCC_kernel P S a nvar ob))
         else PackCC_kernel P S a nvar ob))"
proof -
  have 1: "(\<forall>(m, n) \<in> set (List.product [0..nmb_thispack P - 1] [8, 12]).
              remote_nghbr P m n \<longrightarrow> isend_success T m n) = (\<not> isend_fails P T)"
    unfolding isend_fails_def by fastforce
  show ?thesis
    unfolding PackAndSendCC_Orb_def Let_def PackCC_send_fold_flag 1 by simp
qed

text \<open>
  Claim C6, amended. \<^verbatim>\<open>ClearSend\<close> returns \<^verbatim>\<open>fail\<close> exactly when some wait on a send to
  another rank reports an error and \<^verbatim>\<open>complete\<close> otherwise; it waits once on every such
  request, in loop order, whether or not an earlier wait failed, and always returns.
  \<^verbatim>\<open>PackAndSendCC_Orb\<close> never returns \<^verbatim>\<open>fail\<close>: when some send reports an error it ends
  the process, and otherwise it returns \<^verbatim>\<open>complete\<close>.
\<close>

theorem transport_errors_surface:
  "fst (ClearSend P T) =
     (if MPI_PARALLEL_ENABLED P \<and> (\<exists>m n. 0 \<le> m \<and> m < nmb_thispack P \<and> 0 \<le> n \<and> n < nnghbr P
           \<and> remote_nghbr P m n \<and> \<not> wait_success T m n)
      then fail else complete)
   \<and> snd (ClearSend P T) =
       (if MPI_PARALLEL_ENABLED P then filter (\<lambda>(m, n). remote_nghbr P m n) (mb_nghbr_pairs P)
        else [])
   \<and> distinct (snd (ClearSend P T))
   \<and> (if MPI_PARALLEL_ENABLED P \<and> isend_fails P T
      then PackAndSendCC_Orb P S T a nvar ob = Exited
      else \<exists>ob'. PackAndSendCC_Orb P S T a nvar ob = Returned complete ob')"
  unfolding ClearSend_eq PackAndSendCC_Orb_outcome
  by (simp add: distinct_mb_nghbr_pairs)

lemma remote_ex_12: "remote_nghbr pack_ex 0 12"
  by (simp add: remote_nghbr_def pack_ex_def)

lemma isend_fails_ex: "isend_fails pack_ex transport_failing"
  unfolding isend_fails_def using remote_ex_12
  by (intro exI [of _ 0] exI [of _ 12]) (simp add: pack_ex_sizes transport_failing_def)

text \<open>
  Claim C6 as stated fails for \<^verbatim>\<open>PackAndSendCC_Orb\<close>: the send to the neighbour of slot
  12 fails and the function ends the process; no \<^verbatim>\<open>fail\<close> status reaches the caller.
\<close>

theorem PackAndSendCC_Orb_exits_counterexample:
  "remote_nghbr pack_ex 0 12 \<and> \<not> isend_success transport_failing 0 12
   \<and> PackAndSendCC_Orb pack_ex shear_ex transport_failing u0_ex 1 orbbuf_ex = Exited"
  unfolding PackAndSendCC_Orb_outcome using isend_fails_ex remote_ex_12
  by (simp add: pack_ex_sizes transport_failing_def)

lemma remote_nghbr_ex: "remote_nghbr pack_ex m n = (n = 0 \<or> n = 3 \<or> n = 12)"
  by (simp add: remote_nghbr_def pack_ex_def nb_none_def)

lemma mb_nghbr_pairs_ex: "mb_nghbr_pairs pack_ex =
   [(0, 0), (0, 1), (0, 2), (0, 3), (0, 4), (0, 5), (0, 6), (0, 7), (0, 8), (0, 9), (0, 10),
    (0, 11), (0, 12)]"
  unfolding mb_nghbr_pairs_def pack_ex_sizes by code_simp

theorem transport_errors_surface_witness:
  "fst (ClearSend pack_ex transport_failing) = fail
   \<and> snd (ClearSend pack_ex transport_failing) = [(0, 0), (0, 3), (0, 12)]
   \<and> PackAndSendCC_Orb pack_ex shear_ex transport_failing u0_ex 1 orbbuf_ex = Exited"
proof -
  have w: "\<exists>m n. 0 \<le> m \<and> m < nmb_thispack pack_ex \<and> 0 \<le> n \<and> n < nnghbr pack_ex
           \<and> remote_nghbr pack_ex m n \<and> \<not> wait_success transport_failing m n"
    using remote_ex_0 by (intro exI [of _ 0]) (simp add: pack_ex_sizes transport_failing_def)
  have f: "filter (\<lambda>(m, n). remote_nghbr pack_ex m n) (mb_nghbr_pairs pack_ex)
      = [(0, 0), (0, 3), (0, 12)]"
    unfolding mb_nghbr_pairs_ex by (simp add: remote_nghbr_ex)
  show ?thesis
    using transport_errors_surface [of pack_ex transport_failing shear_ex u0_ex 1 orbbuf_ex]
      w f isend_fails_ex
    by (simp add: pack_ex_sizes)
qed

section \<open>Zero shift with donor cell reconstruction\<close>

lemma DonorCell_zero:
  "DonorCellOrbAdvFlx jl ju 0 u q1 flx j = (if jl \<le> j \<and> j \<le> ju then 0 else flx j)"
  unfolding DonorCellOrbAdvFlx_def by (simp add: fold_upd_at)

lemma orb_joffset_zero: "orb_joffset P m 0 = 0"
  by (simp add: orb_joffset_def static_cast_int_def fl_zero)

lemma orb_epsi_zero: "orb_epsi P m 0 = 0"
  by (simp add: orb_epsi_def fmod_def static_cast_int_def fl_zero)

text \<open>The entries of the scratch array after the gather, and the cells of \<^verbatim>\<open>u0\<close> after the
  update of a team.\<close>

lemma UnpackCC_gather_at:
  "UnpackCC_gather P S E ob u0 (m, n, k, i) joffset jj =
     (if 0 \<le> jj \<and> jj < nx2 (mb_indcs P) + 2 * ng (mb_indcs P)
      then UnpackCC_load P S ob u0 m n k i joffset jj else scr_u0 E (m, n, k, i) jj)"
  unfolding UnpackCC_gather_def by (auto simp: Let_def fold_upd_at)

lemma UnpackCC_apply_at:
  "UnpackCC_apply P S E rcon ob (m, n, k, i) joffset epsi u (m, n, k, j, i) =
     (if js (mb_indcs P) \<le> j \<and> j \<le> je (mb_indcs P)
      then UnpackCC_gather P S E ob u (m, n, k, i) joffset j
           - (orb_flux E rcon (js (mb_indcs P)) (je (mb_indcs P) + 1) epsi
                (UnpackCC_gather P S E ob u (m, n, k, i) joffset)
                (scr_q1 E (m, n, k, i)) (scr_flx E (m, n, k, i)) (j + 1)
              - orb_flux E rcon (js (mb_indcs P)) (je (mb_indcs P) + 1) epsi
                (UnpackCC_gather P S E ob u (m, n, k, i) joffset)
                (scr_q1 E (m, n, k, i)) (scr_flx E (m, n, k, i)) j)
      else u (m, n, k, j, i))"
proof -
  have "fold (\<lambda>j u. u((m, n, k, j, i) := g j)) xs u (m, n, k, j, i)
      = (if j \<in> set xs then g j else u (m, n, k, j, i))" for g xs
    by (induction xs arbitrary: u) simp_all
  then show ?thesis unfolding UnpackCC_apply_def by (simp add: Let_def)
qed

lemma UnpackCC_apply_other:
  assumes "(m', n', k', i') \<noteq> (m, v, k, i)"
  shows "UnpackCC_apply P S E rcon ob (m', n', k', i') joffset epsi u (m, v, k, j, i)
           = u (m, v, k, j, i)"
  unfolding UnpackCC_apply_def using assms
  by (simp add: Let_def fold_upd_other)

lemma UnpackCC_team_zero_shift:
  assumes "CC_yshear P S m i = 0"
    and "0 \<le> js (mb_indcs P)" and "je (mb_indcs P) < nx2 (mb_indcs P) + 2 * ng (mb_indcs P)"
  shows "UnpackCC_team P S E dc ob (m, n, k, i) u = u"
proof -
  let ?u0s = "UnpackCC_gather P S E ob u (m, n, k, i) 0"
  let ?flx = "orb_flux E dc (js (mb_indcs P)) (je (mb_indcs P) + 1) 0 ?u0s
                (scr_q1 E (m, n, k, i)) (scr_flx E (m, n, k, i))"
  have load: "?u0s j = u (m, n, k, j, i)" if "j \<in> set [js (mb_indcs P)..je (mb_indcs P)]" for j
    using that assms by (simp add: UnpackCC_gather_at UnpackCC_load_def)
  have flx: "?flx (j + 1) - ?flx j = 0" if "j \<in> set [js (mb_indcs P)..je (mb_indcs P)]" for j
    using that unfolding orb_flux_def by (simp add: DonorCell_zero)
  have "fold (\<lambda>j u. u((m, n, k, j, i) := ?u0s j - (?flx (j + 1) - ?flx j)))
           [js (mb_indcs P)..je (mb_indcs P)] u = u"
    by (rule fold_upd_same) (use load flx in simp)
  then show ?thesis
    unfolding UnpackCC_team_def UnpackCC_apply_def using assms(1)
    by (simp add: Let_def orb_epsi_zero orb_joffset_zero)
qed

lemma UnpackCC_team_other:
  assumes "(m', n', k', i') \<noteq> (m, v, k, i)"
  shows "UnpackCC_team P S E rcon ob (m', n', k', i') u (m, v, k, j, i) = u (m, v, k, j, i)"
  unfolding UnpackCC_team_def using assms
  by (simp add: Let_def UnpackCC_apply_other)

lemma UnpackCC_teams_zero_shift:
  assumes "CC_yshear P S m i = 0"
    and "0 \<le> js (mb_indcs P)" and "je (mb_indcs P) < nx2 (mb_indcs P) + 2 * ng (mb_indcs P)"
  shows "fold (UnpackCC_team P S E dc ob) ts u (m, v, k, j, i) = u (m, v, k, j, i)"
proof (induction ts arbitrary: u)
  case Nil
  show ?case by simp
next
  case (Cons t ts)
  obtain m' n' k' i' where t: "t = (m', n', k', i')" by (cases t)
  have "UnpackCC_team P S E dc ob t u (m, v, k, j, i) = u (m, v, k, j, i)"
  proof (cases "(m', i') = (m, i)")
    case True
    then show ?thesis using UnpackCC_team_zero_shift [OF assms] t by simp
  next
    case False
    then show ?thesis using UnpackCC_team_other t by simp
  qed
  then show ?case using Cons.IH by simp
qed

lemma RecvAndUnpackCC_Orb_returned:
  assumes "RecvAndUnpackCC_Orb P S T E rcon ob nvar u0 = Returned st u0'"
  shows "(st = incomplete \<and> u0' = u0) \<or>
         (st = complete \<and> u0' = UnpackCC_kernel P S E rcon ob nvar u0)"
  using assms unfolding RecvAndUnpackCC_Orb_def
  by (auto split: prod.splits if_splits)

text \<open>
  Claim C7. With donor cell reconstruction, for a block \<open>m\<close> and an x1 index \<open>i\<close> whose shift
  distance is zero (so the integer offset and the fractional offset are zero), whatever
  \<^verbatim>\<open>RecvAndUnpackCC_Orb\<close> returns, the array it leaves agrees with the input array in
  every variable \<open>v\<close> and every cell \<open>(k, j)\<close> of that block and index. The index range
  \<open>js..je\<close> lies inside the scratch array, as it does for every mesh, and the cell width is
  not zero.
\<close>

theorem donor_cell_zero_shift_identity:
  assumes "RecvAndUnpackCC_Orb P S T E dc ob nvar u0 = Returned st u0'"
    and "CC_yshear P S m i = 0"
    and "dx2 (mb_size P m) \<noteq> 0"
    and "0 \<le> js (mb_indcs P)" and "je (mb_indcs P) < nx2 (mb_indcs P) + 2 * ng (mb_indcs P)"
  shows "u0' (m, v, k, j, i) = u0 (m, v, k, j, i)"
  using RecvAndUnpackCC_Orb_returned [OF assms(1)]
    UnpackCC_teams_zero_shift [OF assms(2,4,5)]
  by (auto simp: UnpackCC_kernel_def)

lemma orb_test_all_ok: "orb_test_all P transport_ok = (False, True)"
  unfolding orb_test_all_eq by (simp add: transport_ok_def)


lemma yshear_zero_ex: "CC_yshear pack_ex shear_zero m i = 0"
  by (simp add: CC_yshear_def orb_yshear_def shear_zero_def fl_zero)

theorem donor_cell_zero_shift_identity_witness:
  "CC_yshear pack_ex shear_zero 0 1 = 0
   \<and> (\<exists>u0'. RecvAndUnpackCC_Orb pack_ex shear_zero transport_ok env_ex dc orbbuf_ex 1 u0_ex
         = Returned complete u0' \<and> u0' (0, 0, 0, 2, 1) = 21)"
proof -
  obtain u0' where r:
    "RecvAndUnpackCC_Orb pack_ex shear_zero transport_ok env_ex dc orbbuf_ex 1 u0_ex
       = Returned complete u0'"
    unfolding RecvAndUnpackCC_Orb_def by (simp add: orb_test_all_ok)
  have d: "dx2 (mb_size pack_ex 0) \<noteq> 0" by (simp add: pack_ex_dx)
  have i: "0 \<le> js (mb_indcs pack_ex)"
    "je (mb_indcs pack_ex) < nx2 (mb_indcs pack_ex) + 2 * ng (mb_indcs pack_ex)"
    by (simp_all add: pack_ex_def indcs_ex_def)
  have "u0' (0, 0, 0, 2, 1) = u0_ex (0, 0, 0, 2, 1)"
    by (rule donor_cell_zero_shift_identity [OF r yshear_zero_ex d i])
  then have "u0' (0, 0, 0, 2, 1) = 21" by (simp add: u0_ex_def)
  then show ?thesis using r yshear_zero_ex by blast
qed

section \<open>Constrained transport update\<close>

lemma CT_b1_x1f:
  "x1f (CT_b1 P efld b0) (m, k, j, i) =
     (if multi_d P \<and> m \<in> {0..nmb_thispack P - 1} \<and> k \<in> {ks (mb_indcs P)..ke (mb_indcs P)}
         \<and> j \<in> {js (mb_indcs P)..je (mb_indcs P)} \<and> i \<in> {is' (mb_indcs P)..ie (mb_indcs P) + 1}
      then CT_b1_cell efld (m, k, j, i) (x1f b0 (m, k, j, i))
      else x1f b0 (m, k, j, i))"
  unfolding CT_b1_def
  by (simp add: fold_pointwise [OF distinct_range4] set_range4)

lemma CT_b1_other: "x2f (CT_b1 P efld b0) = x2f b0" "x3f (CT_b1 P efld b0) = x3f b0"
  by (simp_all add: CT_b1_def)

lemma CT_b2_x2f:
  "x2f (CT_b2 P efld b0) (m, k, j, i) =
     (if m \<in> {0..nmb_thispack P - 1} \<and> k \<in> {ks (mb_indcs P)..ke (mb_indcs P)}
         \<and> j \<in> {js (mb_indcs P)..je (mb_indcs P) + 1} \<and> i \<in> {is' (mb_indcs P)..ie (mb_indcs P)}
      then CT_b2_cell P efld (m, k, j, i) (x2f b0 (m, k, j, i))
      else x2f b0 (m, k, j, i))"
  unfolding CT_b2_def
  by (simp add: fold_pointwise [OF distinct_range4] set_range4)

lemma CT_b2_other: "x1f (CT_b2 P efld b0) = x1f b0" "x3f (CT_b2 P efld b0) = x3f b0"
  by (simp_all add: CT_b2_def)

lemma CT_b3_x3f:
  "x3f (CT_b3 P efld b0) (m, k, j, i) =
     (if multi_d P \<and> m \<in> {0..nmb_thispack P - 1} \<and> k \<in> {ks (mb_indcs P)..ke (mb_indcs P) + 1}
         \<and> j \<in> {js (mb_indcs P)..je (mb_indcs P)} \<and> i \<in> {is' (mb_indcs P)..ie (mb_indcs P)}
      then CT_b3_cell efld (m, k, j, i) (x3f b0 (m, k, j, i))
      else x3f b0 (m, k, j, i))"
  unfolding CT_b3_def
  by (simp add: fold_pointwise [OF distinct_range4] set_range4)

lemma CT_b3_other: "x1f (CT_b3 P efld b0) = x1f b0" "x2f (CT_b3 P efld b0) = x2f b0"
  by (simp_all add: CT_b3_def)

lemma CT_update_divB:
  assumes "(m, k, j, i) \<in> interior P"
    and "dx1 (mb_size P m) \<noteq> 0" and "dx2 (mb_size P m) \<noteq> 0" and "dx3 (mb_size P m) \<noteq> 0"
  shows "divB P (CT_b3 P efld (CT_b2 P efld (CT_b1 P efld b0))) (m, k, j, i) = divB P b0 (m, k, j, i)"
proof -
  let ?b = "CT_b3 P efld (CT_b2 P efld (CT_b1 P efld b0))"
  have r: "0 \<le> m" "m \<le> nmb_thispack P - 1" "ks (mb_indcs P) \<le> k" "k \<le> ke (mb_indcs P)"
    "js (mb_indcs P) \<le> j" "j \<le> je (mb_indcs P)" "is' (mb_indcs P) \<le> i" "i \<le> ie (mb_indcs P)"
    using assms(1) by (simp_all add: interior_def)
  have b1: "x1f ?b (m, k, j, i') = (if multi_d P
      then x1f b0 (m, k, j, i') - (x3e efld (m, k, j + 1, i') - x3e efld (m, k, j, i'))
      else x1f b0 (m, k, j, i'))" if "i' = i \<or> i' = i + 1" for i'
    using that r by (auto simp: CT_b3_other CT_b2_other CT_b1_x1f CT_b1_cell_def)
  have b2: "x2f ?b (m, k, j', i) = CT_b2_cell P efld (m, k, j', i) (x2f b0 (m, k, j', i))"
    if "j' = j \<or> j' = j + 1" for j'
    using that r by (auto simp: CT_b3_other CT_b2_x2f CT_b1_other)
  have b3: "x3f ?b (m, k', j, i) = (if multi_d P
      then x3f b0 (m, k', j, i) + (x1e efld (m, k', j + 1, i) - x1e efld (m, k', j, i))
      else x3f b0 (m, k', j, i))" if "k' = k \<or> k' = k + 1" for k'
    using that r by (auto simp: CT_b3_x3f CT_b2_other CT_b1_other CT_b3_cell_def)
  show ?thesis
    unfolding divB_def prod.case
    using assms(2-4)
    by (simp add: b1 b2 b3 CT_b2_cell_def Let_def field_simps)
qed

lemma RecvAndUnpackFC_Orb_returned:
  assumes "RecvAndUnpackFC_Orb P S T E rcon ob (b0, efld) = Returned st (b0', efld')"
  shows "(st = incomplete \<and> b0' = b0) \<or>
         (st = complete \<and> b0' = CT_b3 P efld' (CT_b2 P efld' (CT_b1 P efld' b0)))"
  using assms unfolding RecvAndUnpackFC_Orb_def
  by (auto simp: Let_def split: prod.splits if_splits)

text \<open>
  Claim C8. Whatever \<^verbatim>\<open>RecvAndUnpackFC_Orb\<close> returns, if the discrete divergence of the
  face-centred field is zero in every cell of the pack before the call, it is zero in every
  cell after it: the three fields are updated by differences of the effective EMFs, and
  these differences cancel in the divergence of each cell (lemma \<open>CT_update_divB\<close>: the
  divergence of each cell is unchanged). The cell widths are not zero.
\<close>

theorem CT_update_keeps_divergence_free:
  assumes "RecvAndUnpackFC_Orb P S T E rcon ob (b0, efld) = Returned st (b0', efld')"
    and "\<forall>m \<in> {0..nmb_thispack P - 1}.
           dx1 (mb_size P m) \<noteq> 0 \<and> dx2 (mb_size P m) \<noteq> 0 \<and> dx3 (mb_size P m) \<noteq> 0"
    and "\<forall>p \<in> interior P. divB P b0 p = 0"
  shows "\<forall>p \<in> interior P. divB P b0' p = 0"
proof
  fix p assume p: "p \<in> interior P"
  obtain m k j i where c: "p = (m, k, j, i)" by (cases p)
  have m: "m \<in> {0..nmb_thispack P - 1}" using p c by (simp add: interior_def)
  have d: "dx1 (mb_size P m) \<noteq> 0" "dx2 (mb_size P m) \<noteq> 0" "dx3 (mb_size P m) \<noteq> 0"
    using assms(2) m by auto
  have "divB P b0' p = divB P b0 p"
    using RecvAndUnpackFC_Orb_returned [OF assms(1)] CT_update_divB [OF p [unfolded c] d]
    by (auto simp: c)
  then show "divB P b0' p = 0" using assms(3) p by simp
qed

lemma pack3_ex_facts:
  "nmb_thispack pack3_ex = 1" "mb_indcs pack3_ex = indcs3_ex" "multi_d pack3_ex" "three_d pack3_ex"
  "dx1 (mb_size pack3_ex m) = 1" "dx2 (mb_size pack3_ex m) = 1" "dx3 (mb_size pack3_ex m) = 1"
  by (simp_all add: pack3_ex_def pack_ex_def size_ex_def)

lemma divB3_ex: "divB pack3_ex b3_ex p = 0"
  by (cases p) (simp add: divB_def pack3_ex_facts b3_ex_def)

lemma interior3_ex: "interior pack3_ex = {(0, 1, 1, 1), (0, 1, 2, 1)}"
proof -
  have "{1..2::int} = {1, 2}" by auto
  then show ?thesis by (simp add: interior_def pack3_ex_facts indcs3_ex_def)
qed

text \<open>The run of the example. The unassigned variable holds 1/8, so with shear rate 3, time
  step 1 and cell width 1 every team has the shift distance -3/8, the integer offset 0 and
  the fractional offset -3/8. Every team has defined behaviour: the gather reads the two
  layers of the receive buffers and the indices stay inside the ghost cells.\<close>

lemma FC_shift3_ex:
  "FC_yshear pack3_ex shear_ex env_ex t = - (3 / 8)"
  "orb_joffset pack3_ex m (- (3 / 8)) = 0"
  "orb_epsi pack3_ex m (- (3 / 8)) = - (3 / 8)"
  by (simp_all add: FC_yshear_def FC_x1_uninit orb_yshear_def orb_joffset_def orb_epsi_def
      fmod_def static_cast_int_def pack3_ex_def pack_ex_def size_ex_def shear_ex_def env_ex_def
      fl_exact_values)

lemma FC_teams3_ex: "t \<in> set (FC_teams pack3_ex) \<longleftrightarrow>
    (\<exists>v k i. t = (0, v, k, i) \<and> (v = 0 \<or> v = 1) \<and> (k = 1 \<or> k = 2) \<and> (i = 1 \<or> i = 2))"
proof -
  have "{0..1::int} = {0, 1}" "{1..2::int} = {1, 2}" by auto
  then show ?thesis
    by (cases t) (auto simp: FC_teams_def set_range4 pack3_ex_facts indcs3_ex_def)
qed

lemma UnpackFC_defined3_ex:
  assumes "t \<in> set (FC_teams pack3_ex)"
  shows "UnpackFC_defined pack3_ex shear_ex env_ex orbbuf_ex t"
proof -
  obtain v k i where t: "t = (0, v, k, i)" "v = 0 \<or> v = 1" "k = 1 \<or> k = 2" "i = 1 \<or> i = 2"
    using assms unfolding FC_teams3_ex by blast
  have l: "[0..3::int] = [0, 1, 2, 3]" "[1..2::int] = [1, 2]" "[1..0::int] = []"
    by (simp_all add: upto.simps)
  have "{0..3::int} = {0, 1, 2, 3}" by auto
  then have ok: "\<forall>jj \<in> {0..3}. orb_load_ok pack3_ex shear_ex orbbuf_ex 0 v k i 0 jj"
    using t(2-4)
    by (auto simp: orb_load_ok_def in_extent_def orbbuf_ex_def buf_ex_def shear_ex_def
        pack3_ex_facts indcs3_ex_def)
  show ?thesis
    unfolding UnpackFC_defined_def t(1) prod.case
    using ok
    by (simp add: Let_def FC_shift3_ex pack3_ex_facts fl_exact_values int_range_def
        indcs3_ex_def l)
qed

lemma UnpackFC_team3_ex:
  "UnpackFC_team pack3_ex shear_ex env_ex rcon ob b0 (m, v, k, i) efld
     = UnpackFC_apply pack3_ex shear_ex env_ex rcon ob b0 (m, v, k, i) 0 (- (3 / 8)) efld"
  by (simp add: UnpackFC_team_def Let_def FC_shift3_ex)

text \<open>With integer offset 0 a team writes the fluxes of its column and nothing else.\<close>

lemma UnpackFC_apply_x3e:
  "x3e (UnpackFC_apply P S E rcon ob b0 (m, v, k, i) 0 epsi efld) (m', k', j', i') =
     (if v = 1 \<and> m' = m \<and> k' = k \<and> i' = i \<and> js (mb_indcs P) \<le> j' \<and> j' \<le> je (mb_indcs P)
      then orb_flux E rcon (js (mb_indcs P)) (je (mb_indcs P) + 1) epsi
             (UnpackFC_gather P S E ob b0 (m, v, k, i) 0)
             (scr_q1 E (m, v, k, i)) (scr_flx E (m, v, k, i)) j'
      else x3e efld (m', k', j', i'))"
  unfolding UnpackFC_apply_def by (simp add: Let_def fold_upd_col)

lemma UnpackFC_apply_x1e:
  "x1e (UnpackFC_apply P S E rcon ob b0 (m, v, k, i) 0 epsi efld) (m', k', j', i') =
     (if v = 0 \<and> m' = m \<and> k' = k \<and> i' = i \<and> js (mb_indcs P) \<le> j' \<and> j' \<le> je (mb_indcs P)
      then - orb_flux E rcon (js (mb_indcs P)) (je (mb_indcs P) + 1) epsi
             (UnpackFC_gather P S E ob b0 (m, v, k, i) 0)
             (scr_q1 E (m, v, k, i)) (scr_flx E (m, v, k, i)) j'
      else x1e efld (m', k', j', i'))"
  unfolding UnpackFC_apply_def by (simp add: Let_def fold_upd_col)

lemma DonorCell_neg:
  "eps \<le> 0 \<Longrightarrow> DonorCellOrbAdvFlx jl ju eps u q1 flx j
     = (if jl \<le> j \<and> j \<le> ju then eps * u j else flx j)"
  unfolding DonorCellOrbAdvFlx_def by (simp add: fold_upd_at)

lemma UnpackFC_gather3_ex:
  "UnpackFC_gather pack3_ex shear_ex env_ex orbbuf_ex b3_ex (0, 0, 1, 1) 0 2 = 1"
  "UnpackFC_gather pack3_ex shear_ex env_ex orbbuf_ex b3_ex (0, 1, 1, 1) 0 2 = 1"
  by (simp_all add: UnpackFC_gather_def UnpackFC_load_def Let_def pack3_ex_facts indcs3_ex_def
      upto.simps b3_ex_def)

text \<open>The effective EMFs that the kernel leaves at the edges of the cell \<open>(0, 1, 2, 1)\<close>:
  the fluxes at \<open>j = 2\<close>, and the values found at \<open>j = 3\<close>, which no team writes.\<close>

lemma UnpackFC_emf3_ex:
  "x3e (UnpackFC_emf pack3_ex shear_ex env_ex dc orbbuf_ex b3_ex efld_ex) (0, 1, 2, 1) = - (3 / 8)"
  "x3e (UnpackFC_emf pack3_ex shear_ex env_ex dc orbbuf_ex b3_ex efld_ex) (0, 1, 3, 1) = 0"
  "x1e (UnpackFC_emf pack3_ex shear_ex env_ex dc orbbuf_ex b3_ex efld_ex) (0, 1, 2, 1) = 3 / 8"
  "x1e (UnpackFC_emf pack3_ex shear_ex env_ex dc orbbuf_ex b3_ex efld_ex) (0, 1, 3, 1) = 0"
proof -
  let ?team = "UnpackFC_team pack3_ex shear_ex env_ex dc orbbuf_ex b3_ex"
  let ?emf = "UnpackFC_emf pack3_ex shear_ex env_ex dc orbbuf_ex b3_ex efld_ex"
  have hitz: "x3e (?team t e) (0, 1, 2, 1) = (if t = (0, 1, 1, 1) then - (3 / 8) else x3e e (0, 1, 2, 1))"
    for t e
    by (cases t)
       (auto simp: UnpackFC_team3_ex UnpackFC_apply_x3e pack3_ex_facts indcs3_ex_def orb_flux_def
          DonorCell_neg UnpackFC_gather3_ex)
  have hitx: "x1e (?team t e) (0, 1, 2, 1) = (if t = (0, 0, 1, 1) then 3 / 8 else x1e e (0, 1, 2, 1))"
    for t e
    by (cases t)
       (auto simp: UnpackFC_team3_ex UnpackFC_apply_x1e pack3_ex_facts indcs3_ex_def orb_flux_def
          DonorCell_neg UnpackFC_gather3_ex)
  have missz: "x3e (?team t e) (0, 1, 3, 1) = (if False then 0 else x3e e (0, 1, 3, 1))" for t e
    by (cases t) (simp add: UnpackFC_team3_ex UnpackFC_apply_x3e pack3_ex_facts indcs3_ex_def)
  have missx: "x1e (?team t e) (0, 1, 3, 1) = (if False then 0 else x1e e (0, 1, 3, 1))" for t e
    by (cases t) (simp add: UnpackFC_team3_ex UnpackFC_apply_x1e pack3_ex_facts indcs3_ex_def)
  have t: "(0, 1, 1, 1) \<in> set (FC_teams pack3_ex)" "(0, 0, 1, 1) \<in> set (FC_teams pack3_ex)"
    unfolding FC_teams3_ex by simp_all
  show "x3e ?emf (0, 1, 2, 1) = - (3 / 8)"
    unfolding UnpackFC_emf_def
    using fold_writes_hit [where rd = "\<lambda>e. x3e e (0, 1, 2, 1)" and app = ?team
        and hit = "\<lambda>t. t = (0, 1, 1, 1)" and val = "\<lambda>t. - (3 / 8)" and c = "- (3 / 8)"
        and ws = "FC_teams pack3_ex" and s = efld_ex] hitz t(1)
    by blast
  show "x1e ?emf (0, 1, 2, 1) = 3 / 8"
    unfolding UnpackFC_emf_def
    using fold_writes_hit [where rd = "\<lambda>e. x1e e (0, 1, 2, 1)" and app = ?team
        and hit = "\<lambda>t. t = (0, 0, 1, 1)" and val = "\<lambda>t. 3 / 8" and c = "3 / 8"
        and ws = "FC_teams pack3_ex" and s = efld_ex] hitx t(2)
    by blast
  have "x3e ?emf (0, 1, 3, 1) = x3e efld_ex (0, 1, 3, 1)"
    unfolding UnpackFC_emf_def
    using fold_writes_miss [where rd = "\<lambda>e. x3e e (0, 1, 3, 1)" and app = ?team
        and hit = "\<lambda>t. False" and val = "\<lambda>t. 0" and ws = "FC_teams pack3_ex" and s = efld_ex] missz
    by blast
  then show "x3e ?emf (0, 1, 3, 1) = 0" by (simp add: efld_ex_def)
  have "x1e ?emf (0, 1, 3, 1) = x1e efld_ex (0, 1, 3, 1)"
    unfolding UnpackFC_emf_def
    using fold_writes_miss [where rd = "\<lambda>e. x1e e (0, 1, 3, 1)" and app = ?team
        and hit = "\<lambda>t. False" and val = "\<lambda>t. 0" and ws = "FC_teams pack3_ex" and s = efld_ex] missx
    by blast
  then show "x1e ?emf (0, 1, 3, 1) = 0" by (simp add: efld_ex_def)
qed

theorem CT_update_keeps_divergence_free_witness:
  "dx1 (mb_size pack3_ex 0) \<noteq> 0 \<and> dx2 (mb_size pack3_ex 0) \<noteq> 0 \<and> dx3 (mb_size pack3_ex 0) \<noteq> 0
   \<and> interior pack3_ex = {(0, 1, 1, 1), (0, 1, 2, 1)}
   \<and> divB pack3_ex b3_ex (0, 1, 1, 1) = 0 \<and> divB pack3_ex b3_ex (0, 1, 2, 1) = 0
   \<and> (\<exists>b0' efld'.
         RecvAndUnpackFC_Orb pack3_ex shear_ex transport_ok env_ex dc orbbuf_ex (b3_ex, efld_ex)
           = Returned complete (b0', efld')
         \<and> x3e efld' (0, 1, 2, 1) = - (3 / 8) \<and> x1e efld' (0, 1, 2, 1) = 3 / 8
         \<and> x1f b3_ex (0, 1, 2, 1) = 1 \<and> x1f b0' (0, 1, 2, 1) = 5 / 8
         \<and> x3f b3_ex (0, 1, 2, 1) = 1 \<and> x3f b0' (0, 1, 2, 1) = 5 / 8
         \<and> divB pack3_ex b0' (0, 1, 1, 1) = 0 \<and> divB pack3_ex b0' (0, 1, 2, 1) = 0)"
proof -
  let ?e = "UnpackFC_emf pack3_ex shear_ex env_ex dc orbbuf_ex b3_ex efld_ex"
  let ?b = "CT_b3 pack3_ex ?e (CT_b2 pack3_ex ?e (CT_b1 pack3_ex ?e b3_ex))"
  have def: "\<forall>t \<in> set (FC_teams pack3_ex). UnpackFC_defined pack3_ex shear_ex env_ex orbbuf_ex t"
    using UnpackFC_defined3_ex by blast
  have r: "RecvAndUnpackFC_Orb pack3_ex shear_ex transport_ok env_ex dc orbbuf_ex (b3_ex, efld_ex)
       = Returned complete (?b, ?e)"
    unfolding RecvAndUnpackFC_Orb_def by (simp add: orb_test_all_ok Let_def def)
  have x: "x1f b3_ex (0, 1, 2, 1) = 1" "x3f b3_ex (0, 1, 2, 1) = 1" by (simp_all add: b3_ex_def)
  have "x1f ?b (0, 1, 2, 1) = CT_b1_cell ?e (0, 1, 2, 1) (x1f b3_ex (0, 1, 2, 1))"
    by (simp add: CT_b3_other CT_b2_other CT_b1_x1f pack3_ex_facts indcs3_ex_def)
  then have b1: "x1f ?b (0, 1, 2, 1) = 5 / 8"
    by (simp add: CT_b1_cell_def UnpackFC_emf3_ex x)
  have "x3f ?b (0, 1, 2, 1) = CT_b3_cell ?e (0, 1, 2, 1) (x3f b3_ex (0, 1, 2, 1))"
    by (simp add: CT_b3_x3f CT_b2_other CT_b1_other pack3_ex_facts indcs3_ex_def)
  then have b3: "x3f ?b (0, 1, 2, 1) = 5 / 8"
    by (simp add: CT_b3_cell_def UnpackFC_emf3_ex x)
  have d: "\<forall>m \<in> {0..nmb_thispack pack3_ex - 1}.
      dx1 (mb_size pack3_ex m) \<noteq> 0 \<and> dx2 (mb_size pack3_ex m) \<noteq> 0 \<and> dx3 (mb_size pack3_ex m) \<noteq> 0"
    by (simp add: pack3_ex_facts)
  have z: "\<forall>p \<in> interior pack3_ex. divB pack3_ex b3_ex p = 0" by (simp add: divB3_ex)
  have "\<forall>p \<in> interior pack3_ex. divB pack3_ex ?b p = 0"
    by (rule CT_update_keeps_divergence_free [OF r d z])
  then have "divB pack3_ex ?b (0, 1, 1, 1) = 0" "divB pack3_ex ?b (0, 1, 2, 1) = 0"
    unfolding interior3_ex by simp_all
  then show ?thesis
    using r b1 b3 x interior3_ex divB3_ex UnpackFC_emf3_ex(1,3) by (simp add: pack3_ex_facts)
qed

section \<open>Pack and unpack round trip\<close>

lemma decode3:
  fixes ni nj k0 j0 i0 :: int
  assumes "0 \<le> i0" "i0 < ni" "0 \<le> j0" "j0 < nj"
  defines "idx \<equiv> k0 * (nj * ni) + j0 * ni + i0"
  shows "idx div (nj * ni) = k0"
    and "(idx - k0 * (nj * ni)) div ni = j0"
    and "idx - k0 * (nj * ni) - j0 * ni = i0"
proof -
  have ni: "0 < ni" using assms by simp
  have nj: "0 < nj" using assms by simp
  have "j0 * ni \<le> (nj - 1) * ni" using assms ni by (intro mult_right_mono) simp_all
  then have lt: "j0 * ni + i0 < nj * ni" using assms by (simp add: algebra_simps)
  have ge: "0 \<le> j0 * ni + i0" using assms ni by simp
  have "idx = (j0 * ni + i0) + k0 * (nj * ni)" by (simp add: idx_def)
  then have "idx div (nj * ni) = (j0 * ni + i0) div (nj * ni) + k0"
    using ni nj by simp
  then show "idx div (nj * ni) = k0" using lt ge by (simp add: div_pos_pos_trivial)
  have "(idx - k0 * (nj * ni)) = i0 + j0 * ni" by (simp add: idx_def)
  then have "(idx - k0 * (nj * ni)) div ni = i0 div ni + j0" using ni by simp
  then show "(idx - k0 * (nj * ni)) div ni = j0" using assms by (simp add: div_pos_pos_trivial)
  show "idx - k0 * (nj * ni) - j0 * ni = i0" by (simp add: idx_def)
qed

lemma decode3_range:
  fixes ni nj nk k0 j0 i0 :: int
  assumes "0 \<le> i0" "i0 < ni" "0 \<le> j0" "j0 < nj" "0 \<le> k0" "k0 < nk"
  shows "0 \<le> k0 * (nj * ni) + j0 * ni + i0" "k0 * (nj * ni) + j0 * ni + i0 \<le> nk * nj * ni - 1"
proof -
  have ni: "0 < ni" using assms by simp
  have nj: "0 < nj" using assms by simp
  have nji: "0 < nj * ni" using ni nj by simp
  have "j0 * ni \<le> (nj - 1) * ni" using assms ni by (intro mult_right_mono) simp_all
  then have lt: "j0 * ni + i0 < nj * ni" using assms by (simp add: algebra_simps)
  have ge: "0 \<le> j0 * ni + i0" using assms ni by simp
  have k: "0 \<le> k0 * (nj * ni)" using assms nji by simp
  show "0 \<le> k0 * (nj * ni) + j0 * ni + i0" using k ge by linarith
  have "k0 * (nj * ni) \<le> (nk - 1) * (nj * ni)" using assms nji by (intro mult_right_mono) simp_all
  then show "k0 * (nj * ni) + j0 * ni + i0 \<le> nk * nj * ni - 1"
    using lt by (simp add: algebra_simps)
qed

lemma PackCC_cell_eq:
  "PackCC_cell P S a m n v idx ob =
     (case pack_dec P S n idx of (k0, j0, i0) \<Rightarrow>
        if rank (nghbr P m (orb_nnghbr n)) = my_rank P
        then rbuf_vars_set ((n + 1) mod 2)
               (gid (nghbr P m (orb_nnghbr n)) - mb_gid P 0, v, k0, j0, i0)
               (a (m, v, k0 + ks (mb_indcs P), j0 + orb_jl P S n, i0 + is' (mb_indcs P))) ob
        else sbuf_vars_set n (m, v, k0, j0, i0)
               (a (m, v, k0 + ks (mb_indcs P), j0 + orb_jl P S n, i0 + is' (mb_indcs P))) ob)"
  by (simp add: PackCC_cell_def pack_dec_def Let_def)

lemma rbuf_vars_set_read:
  "vars (recvbuf_orb (rbuf_vars_set dn p x ob) dn') p' =
     (if dn' = dn \<and> p' = p then x else vars (recvbuf_orb ob dn') p')"
  by (simp add: rbuf_vars_set_def)

lemma sbuf_vars_set_read: "recvbuf_orb (sbuf_vars_set n p x ob) = recvbuf_orb ob"
  by (simp add: sbuf_vars_set_def)

text \<open>What a cell write does to one observed entry of a receive buffer.\<close>

lemma PackCC_cell_read:
  "vars (recvbuf_orb (PackCC_cell P S a m n v idx ob) dn') (dm', v', k0, j0, i0) =
     (if rank (nghbr P m (orb_nnghbr n)) = my_rank P \<and> dn' = (n + 1) mod 2
         \<and> dm' = gid (nghbr P m (orb_nnghbr n)) - mb_gid P 0 \<and> v' = v
         \<and> pack_dec P S n idx = (k0, j0, i0)
      then a (m, v, k0 + ks (mb_indcs P), j0 + orb_jl P S n, i0 + is' (mb_indcs P))
      else vars (recvbuf_orb ob dn') (dm', v', k0, j0, i0))"
  unfolding PackCC_cell_eq
  by (auto simp: rbuf_vars_set_read sbuf_vars_set_read split: prod.splits)

lemma PackCC_team_eq:
  "PackCC_team P S a nvar r ob =
     (case team_of nvar r of (m, n, v) \<Rightarrow>
        if gid (nghbr P m (orb_nnghbr n)) \<ge> 0
        then fold (PackCC_cell P S a m n v) [0..PackCC_nkji P S n - 1] ob else ob)"
  by (simp add: PackCC_team_def team_of_def Let_def)

lemma PackCC_team_read:
  assumes "team_of nvar r = (m, n, v)"
  shows "vars (recvbuf_orb (PackCC_team P S a nvar r ob) dn') (dm', v', k0, j0, i0) =
     (if team_hits P S dn' (dm', v', k0, j0, i0) (m, n, v)
      then a (m, v, k0 + ks (mb_indcs P), j0 + orb_jl P S n, i0 + is' (mb_indcs P))
      else vars (recvbuf_orb ob dn') (dm', v', k0, j0, i0))"
proof -
  let ?rd = "\<lambda>ob. vars (recvbuf_orb ob dn') (dm', v', k0, j0, i0)"
  let ?hit = "\<lambda>idx. rank (nghbr P m (orb_nnghbr n)) = my_rank P \<and> dn' = (n + 1) mod 2
         \<and> dm' = gid (nghbr P m (orb_nnghbr n)) - mb_gid P 0 \<and> v' = v
         \<and> pack_dec P S n idx = (k0, j0, i0)"
  let ?c = "a (m, v, k0 + ks (mb_indcs P), j0 + orb_jl P S n, i0 + is' (mb_indcs P))"
  have step: "?rd (PackCC_cell P S a m n v idx s) = (if ?hit idx then ?c else ?rd s)" for idx s
    by (rule PackCC_cell_read)
  have team: "PackCC_team P S a nvar r ob =
      (if gid (nghbr P m (orb_nnghbr n)) \<ge> 0
       then fold (PackCC_cell P S a m n v) [0..PackCC_nkji P S n - 1] ob else ob)"
    unfolding PackCC_team_eq assms by simp
  show ?thesis
  proof (cases "team_hits P S dn' (dm', v', k0, j0, i0) (m, n, v)")
    case True
    then have g: "gid (nghbr P m (orb_nnghbr n)) \<ge> 0"
      and ex: "\<exists>idx \<in> set [0..PackCC_nkji P S n - 1]. ?hit idx"
      unfolding team_hits_def by auto
    have "?rd (fold (PackCC_cell P S a m n v) [0..PackCC_nkji P S n - 1] ob) = ?c"
      using fold_writes_hit [where rd = ?rd and app = "PackCC_cell P S a m n v" and hit = ?hit
          and val = "\<lambda>_. ?c" and c = ?c and ws = "[0..PackCC_nkji P S n - 1]" and s = ob]
        step ex by simp
    then show ?thesis using True g team by simp
  next
    case False
    show ?thesis
    proof (cases "gid (nghbr P m (orb_nnghbr n)) \<ge> 0")
      case g: True
      then have no: "\<forall>idx \<in> set [0..PackCC_nkji P S n - 1]. \<not> ?hit idx"
        using False unfolding team_hits_def by auto
      have "?rd (fold (PackCC_cell P S a m n v) [0..PackCC_nkji P S n - 1] ob) = ?rd ob"
        using fold_writes_miss [where rd = ?rd and app = "PackCC_cell P S a m n v" and hit = ?hit
            and val = "\<lambda>_. ?c" and ws = "[0..PackCC_nkji P S n - 1]" and s = ob]
          step no by simp
      then show ?thesis using False g team by simp
    next
      case g: False
      then show ?thesis using False team by simp
    qed
  qed
qed

lemma div_encode:
  fixes q r c :: int
  assumes "0 \<le> r" "r < c"
  shows "(q * c + r) div c = q"
proof -
  have c: "c \<noteq> 0" using assms by auto
  have "(r + q * c) div c = q + r div c" using c by (rule div_mult_self1)
  then show ?thesis using assms by (simp add: div_pos_pos_trivial add.commute)
qed

lemma int_div_less:
  fixes a b c :: int
  assumes "0 < c" "a < b * c"
  shows "a div c < b"
proof (rule ccontr)
  assume "\<not> a div c < b"
  then have "b \<le> a div c" by simp
  then have "b * c \<le> (a div c) * c" using assms(1) by (intro mult_right_mono) simp_all
  moreover have "(a div c) * c \<le> a"
    using assms(1) div_mult_mod_eq [of a c] pos_mod_sign [of c a] by linarith
  ultimately show False using assms(2) by linarith
qed

lemma team_of_encode:
  fixes A n v nvar :: int
  assumes "n = 0 \<or> n = 1" "0 \<le> v" "v < nvar"
  shows "team_of nvar (A * (2 * nvar) + n * nvar + v) = (A, n, v)"
proof -
  have nv: "0 < nvar" using assms by simp
  have b: "0 \<le> n * nvar + v" "n * nvar + v < 2 * nvar" using assms nv by auto
  have "(A * (2 * nvar) + (n * nvar + v)) div (2 * nvar) = A"
    using b by (rule div_encode)
  then have m: "(A * (2 * nvar) + n * nvar + v) div (2 * nvar) = A" by (simp add: add.assoc)
  have "(n * nvar + v) div nvar = n" using assms by (intro div_encode) simp_all
  then have n': "(A * (2 * nvar) + n * nvar + v - A * (2 * nvar)) div nvar = n" by simp
  show ?thesis unfolding team_of_def Let_def m n' by simp
qed

lemma team_of_range:
  fixes r nvar nmb :: int
  assumes "0 \<le> r" "r < nmb * 2 * nvar" "0 < nvar" "team_of nvar r = (m, n, v)"
  shows "0 \<le> m" "m < nmb" "n = 0 \<or> n = 1"
proof -
  have m: "m = r div (2 * nvar)" using assms(4) by (simp add: team_of_def Let_def)
  have n: "n = (r - r div (2 * nvar) * (2 * nvar)) div nvar"
    using assms(4) by (auto simp: team_of_def Let_def)
  show "0 \<le> m" unfolding m using assms by (simp add: pos_imp_zdiv_nonneg_iff)
  have "r < nmb * (2 * nvar)" using assms(2) by (simp add: mult.assoc)
  then show "m < nmb" unfolding m using assms(3) by (intro int_div_less) simp_all
  have x: "r - r div (2 * nvar) * (2 * nvar) = r mod (2 * nvar)"
    by (simp add: minus_div_mult_eq_mod)
  have b: "0 \<le> r mod (2 * nvar)" "r mod (2 * nvar) < 2 * nvar" using assms by simp_all
  have "0 \<le> n" unfolding n x using b assms(3) by (simp add: pos_imp_zdiv_nonneg_iff)
  moreover have "n < 2" unfolding n x using b assms(3) by (intro int_div_less) simp_all
  ultimately show "n = 0 \<or> n = 1" by auto
qed

lemma pack_dec_encode:
  assumes "ks (mb_indcs P) \<le> k" "k \<le> ke (mb_indcs P)"
    and "orb_jl P S n \<le> j" "j \<le> orb_ju P S n"
    and "is' (mb_indcs P) \<le> i" "i \<le> ie (mb_indcs P)"
  shows "\<exists>idx \<in> set [0..PackCC_nkji P S n - 1].
           pack_dec P S n idx = (k - ks (mb_indcs P), j - orb_jl P S n, i - is' (mb_indcs P))"
proof -
  define ni where "ni = ie (mb_indcs P) - is' (mb_indcs P) + 1"
  define nj where "nj = orb_ju P S n - orb_jl P S n + 1"
  define nk where "nk = ke (mb_indcs P) - ks (mb_indcs P) + 1"
  define k0 where "k0 = k - ks (mb_indcs P)"
  define j0 where "j0 = j - orb_jl P S n"
  define i0 where "i0 = i - is' (mb_indcs P)"
  define idx where "idx = k0 * (nj * ni) + j0 * ni + i0"
  have r: "0 \<le> i0" "i0 < ni" "0 \<le> j0" "j0 < nj" "0 \<le> k0" "k0 < nk"
    using assms by (simp_all add: ni_def nj_def nk_def k0_def j0_def i0_def)
  have d: "idx div (nj * ni) = k0" "(idx - k0 * (nj * ni)) div ni = j0"
    "idx - k0 * (nj * ni) - j0 * ni = i0"
    unfolding idx_def using decode3 [OF r(1-4), of k0] by simp_all
  have rng: "0 \<le> idx" "idx \<le> nk * nj * ni - 1"
    unfolding idx_def using decode3_range [OF r] by simp_all
  have "pack_dec P S n idx = (k0, j0, i0)"
    unfolding pack_dec_def Let_def ni_def [symmetric] nj_def [symmetric] using d by simp
  moreover have "idx \<in> set [0..PackCC_nkji P S n - 1]"
    using rng by (simp add: PackCC_nkji_def Let_def ni_def nj_def nk_def)
  ultimately show ?thesis unfolding k0_def j0_def i0_def by blast
qed

text \<open>The teams of the pack kernel deliver the cell of \<open>A\<close> in whatever order they run.\<close>

lemma PackCC_teams_deliver:
  assumes A: "0 \<le> A" "A < nmb_thispack P"
    and n: "n = 0 \<or> n = 1"
    and v: "0 \<le> v" "v < nvar"
    and nb: "gid (nghbr P A (orb_nnghbr n)) \<ge> 0" "rank (nghbr P A (orb_nnghbr n)) = my_rank P"
    and uniq: "\<forall>m'. 0 \<le> m' \<and> m' < nmb_thispack P
          \<and> gid (nghbr P m' (orb_nnghbr n)) = gid (nghbr P A (orb_nnghbr n)) \<longrightarrow> m' = A"
    and k: "ks (mb_indcs P) \<le> k" "k \<le> ke (mb_indcs P)"
    and j: "orb_jl P S n \<le> j" "j \<le> orb_ju P S n"
    and i: "is' (mb_indcs P) \<le> i" "i \<le> ie (mb_indcs P)"
    and rs: "set rs = {0..nmb_thispack P * 2 * nvar - 1}"
  shows "vars (recvbuf_orb (fold (PackCC_team P S a nvar) rs ob) ((n + 1) mod 2))
           (gid (nghbr P A (orb_nnghbr n)) - mb_gid P 0, v,
            k - ks (mb_indcs P), j - orb_jl P S n, i - is' (mb_indcs P))
         = a (A, v, k, j, i)"
proof -
  let ?dn = "(n + 1) mod 2"
  let ?p = "(gid (nghbr P A (orb_nnghbr n)) - mb_gid P 0, v,
            k - ks (mb_indcs P), j - orb_jl P S n, i - is' (mb_indcs P))"
  let ?rd = "\<lambda>ob. vars (recvbuf_orb ob ?dn) ?p"
  let ?hit = "\<lambda>r. team_hits P S ?dn ?p (team_of nvar r)"
  let ?val = "\<lambda>r. case team_of nvar r of (m', n', v') \<Rightarrow>
      a (m', v', (k - ks (mb_indcs P)) + ks (mb_indcs P),
         (j - orb_jl P S n) + orb_jl P S n', (i - is' (mb_indcs P)) + is' (mb_indcs P))"
  have nv: "0 < nvar" using v by simp
  have step: "?rd (PackCC_team P S a nvar r s) = (if ?hit r then ?val r else ?rd s)" for r s
  proof -
    obtain m' n' v' where t: "team_of nvar r = (m', n', v')" by (cases "team_of nvar r")
    show ?thesis using PackCC_team_read [OF t, of P S a s ?dn] by (simp add: t)
  qed
  let ?r0 = "A * (2 * nvar) + n * nvar + v"
  have t0: "team_of nvar ?r0 = (A, n, v)" using team_of_encode [OF n v] .
  have "n * nvar + v < 2 * nvar" "0 \<le> n * nvar + v" using n v nv by auto
  moreover have "A * (2 * nvar) \<le> (nmb_thispack P - 1) * (2 * nvar)"
    using A nv by (intro mult_right_mono) simp_all
  moreover have "0 \<le> A * (2 * nvar)" using A nv by simp
  ultimately have r0: "?r0 \<in> set rs" unfolding rs by (simp add: algebra_simps)
  have hit0: "?hit ?r0"
    unfolding t0 team_hits_def using nb pack_dec_encode [OF k j i] by simp
  have all: "\<forall>r \<in> set rs. ?hit r \<longrightarrow> ?val r = a (A, v, k, j, i)"
  proof (intro ballI impI)
    fix r assume r: "r \<in> set rs" and h: "?hit r"
    obtain m' n' v' where t: "team_of nvar r = (m', n', v')" by (cases "team_of nvar r")
    have rr: "0 \<le> r" "r < nmb_thispack P * 2 * nvar" using r unfolding rs by simp_all
    note rg = team_of_range [OF rr nv t]
    have h': "(n + 1) mod 2 = (n' + 1) mod 2" "v = v'"
      "gid (nghbr P A (orb_nnghbr n)) - mb_gid P 0 = gid (nghbr P m' (orb_nnghbr n')) - mb_gid P 0"
      using h unfolding t team_hits_def by simp_all
    have nn: "n' = n" using h'(1) n rg(3) by auto
    have "m' = A" using uniq rg(1,2) h'(3) nn by auto
    then show "?val r = a (A, v, k, j, i)" using nn h'(2) by (simp add: t)
  qed
  show ?thesis
    using fold_writes_hit [where rd = ?rd and app = "PackCC_team P S a nvar" and hit = ?hit
        and val = ?val and c = "a (A, v, k, j, i)" and ws = rs and s = ob]
      step r0 hit0 all by blast
qed

lemma PackCC_kernel_delivers:
  assumes A: "0 \<le> A" "A < nmb_thispack P"
    and n: "n = 0 \<or> n = 1"
    and v: "0 \<le> v" "v < nvar"
    and nb: "gid (nghbr P A (orb_nnghbr n)) \<ge> 0" "rank (nghbr P A (orb_nnghbr n)) = my_rank P"
    and uniq: "\<forall>m'. 0 \<le> m' \<and> m' < nmb_thispack P
          \<and> gid (nghbr P m' (orb_nnghbr n)) = gid (nghbr P A (orb_nnghbr n)) \<longrightarrow> m' = A"
    and k: "ks (mb_indcs P) \<le> k" "k \<le> ke (mb_indcs P)"
    and j: "orb_jl P S n \<le> j" "j \<le> orb_ju P S n"
    and i: "is' (mb_indcs P) \<le> i" "i \<le> ie (mb_indcs P)"
  shows "vars (recvbuf_orb (PackCC_kernel P S a nvar ob) ((n + 1) mod 2))
           (gid (nghbr P A (orb_nnghbr n)) - mb_gid P 0, v,
            k - ks (mb_indcs P), j - orb_jl P S n, i - is' (mb_indcs P))
         = a (A, v, k, j, i)"
  unfolding PackCC_kernel_def Let_def
  by (rule PackCC_teams_deliver [OF A n v nb uniq k j i]) simp



lemma PackAndSendCC_Orb_recvbuf:
  assumes "PackAndSendCC_Orb P S T a nvar ob = Returned st ob'"
  shows "recvbuf_orb ob' = recvbuf_orb (PackCC_kernel P S a nvar ob)"
  using assms unfolding PackAndSendCC_Orb_outcome
  by (auto simp: PackCC_send_fold_recvbuf split: if_splits)

text \<open>A team of the unpack kernel reads and writes its own column of \<^verbatim>\<open>u0\<close> only, so
  after the kernel the column holds what that team computes from the array as it was
  before the kernel.\<close>

lemma UnpackCC_kernel_column:
  assumes "0 \<le> m" "m < nmb_thispack P" "0 \<le> n" "n < nvar"
    and "ks (mb_indcs P) \<le> k" "k \<le> ke (mb_indcs P)"
    and "is' (mb_indcs P) \<le> i" "i \<le> ie (mb_indcs P)"
  shows "UnpackCC_kernel P S E rcon ob nvar u0 (m, n, k, j, i)
           = UnpackCC_team P S E rcon ob (m, n, k, i) u0 (m, n, k, j, i)"
proof -
  let ?view = "\<lambda>u j. (u :: idx5 \<Rightarrow> real) (m, n, k, j, i)"
  let ?team = "UnpackCC_team P S E rcon ob"
  let ?ts = "CC_teams P nvar"
  have other: "?view (?team t' s) = ?view s" if "t' \<noteq> (m, n, k, i)" for t' s
    using that by (cases t') (simp add: UnpackCC_team_other)
  have loc: "?view (?team (m, n, k, i) s) = ?view (?team (m, n, k, i) s')"
    if "?view s = ?view s'" for s s'
  proof -
    have col: "s (m, n, k, j, i) = s' (m, n, k, j, i)" for j using that by (rule fun_cong)
    have ld: "UnpackCC_load P S ob s m n k i J jj = UnpackCC_load P S ob s' m n k i J jj" for J jj
      by (simp add: UnpackCC_load_def col)
    have g: "UnpackCC_gather P S E ob s (m, n, k, i) J = UnpackCC_gather P S E ob s' (m, n, k, i) J"
      for J by (simp add: UnpackCC_gather_def ld)
    have "UnpackCC_apply P S E rcon ob (m, n, k, i) J e s (m, n, k, j, i)
        = UnpackCC_apply P S E rcon ob (m, n, k, i) J e s' (m, n, k, j, i)" for J e j
      unfolding UnpackCC_apply_at g col ..
    then show ?thesis by (simp add: UnpackCC_team_def Let_def)
  qed
  have mem: "(m, n, k, i) \<in> set ?ts" using assms by (simp add: CC_teams_def set_range4)
  have "?view (fold ?team ?ts u0) = ?view (?team (m, n, k, i) u0)"
  proof (rule fold_column_local [where view = ?view and step = ?team and t = "(m, n, k, i)"
        and ts = ?ts and s = u0])
    show "?view (?team t' s) = ?view s" if "t' \<noteq> (m, n, k, i)" for t' s
      using that by (rule other)
    show "?view (?team (m, n, k, i) s) = ?view (?team (m, n, k, i) s')"
      if "?view s = ?view s'" for s s'
      using that by (rule loc)
    show "distinct ?ts" unfolding CC_teams_def by (rule distinct_range4)
    show "(m, n, k, i) \<in> set ?ts" by (rule mem)
  qed
  then show ?thesis unfolding UnpackCC_kernel_def by (rule fun_cong)
qed

text \<open>
  Claim C2. Let block \<open>A\<close> have a neighbour \<open>B\<close> of the pack on the own rank across the
  x2-face of buffer \<open>n\<close> (slot 8 for \<open>n = 0\<close>, slot 12 for \<open>n = 1\<close>), and let no other block
  of the pack have the same neighbour in that slot. After \<^verbatim>\<open>PackAndSendCC_Orb\<close> has
  returned, let \<^verbatim>\<open>RecvAndUnpackCC_Orb\<close> run to completion on the buffers it left, every team
  of its kernel with defined behaviour (reads inside the receive buffers). Every interior
  cell \<open>(k, j, i)\<close> of \<open>A\<close> in the packed range and every variable \<open>v\<close> is reproduced
  exactly where the unpack step gathers it for \<open>B\<close>: the entry \<open>jj\<close> of the scratch array
  of team \<open>(B, v, k, i)\<close> whose shifted source index \<open>jj - joffset\<close> falls on the buffer
  position of \<open>j\<close> (past \<open>je\<close> in the right buffer for \<open>n = 0\<close>, before \<open>js\<close> in the left
  buffer for \<open>n = 1\<close>) holds the value \<open>a (A, v, k, j, i)\<close>. And it is reproduced exactly in
  the array that the step returns: when the shift is by whole cells (fractional offset
  zero) with donor cell reconstruction and \<open>jj\<close> is an interior cell, cell \<open>(k, jj, i)\<close> of
  \<open>B\<close> holds the value of cell \<open>(k, j, i)\<close> of \<open>A\<close>. The ghost cells precede a non-empty
  interior.
\<close>

theorem pack_unpack_roundtrip:
  assumes pack: "PackAndSendCC_Orb P S T a nvar ob = Returned st ob'"
    and unpack: "RecvAndUnpackCC_Orb P S T' E rcon ob' nvar u0 = Returned complete u0'"
    and defined: "\<forall>t \<in> set (CC_teams P nvar). UnpackCC_defined P S ob' t"
    and A: "0 \<le> A" "A < nmb_thispack P"
    and n: "n = 0 \<or> n = 1"
    and v: "0 \<le> v" "v < nvar"
    and nb: "gid (nghbr P A (orb_nnghbr n)) \<ge> 0" "rank (nghbr P A (orb_nnghbr n)) = my_rank P"
    and B: "B = gid (nghbr P A (orb_nnghbr n)) - mb_gid P 0" "0 \<le> B" "B < nmb_thispack P"
    and uniq: "\<forall>m'. 0 \<le> m' \<and> m' < nmb_thispack P
          \<and> gid (nghbr P m' (orb_nnghbr n)) = gid (nghbr P A (orb_nnghbr n)) \<longrightarrow> m' = A"
    and g: "ng (mb_indcs P) \<le> js (mb_indcs P)" "js (mb_indcs P) \<le> je (mb_indcs P)"
    and k: "ks (mb_indcs P) \<le> k" "k \<le> ke (mb_indcs P)"
    and j: "orb_jl P S n \<le> j" "j \<le> orb_ju P S n"
    and i: "is' (mb_indcs P) \<le> i" "i \<le> ie (mb_indcs P)"
    and jj: "0 \<le> jj" "jj < nx2 (mb_indcs P) + 2 * ng (mb_indcs P)"
    and src: "jj - orb_joffset P B (CC_yshear P S B i) =
        (if n = 0 then je (mb_indcs P) + 1 + (j - orb_jl P S n)
         else (j - orb_jl P S n) - maxjshift S)"
  shows "UnpackCC_gather P S E ob' u0 (B, v, k, i) (orb_joffset P B (CC_yshear P S B i)) jj
           = a (A, v, k, j, i)
         \<and> (js (mb_indcs P) \<le> jj \<and> jj \<le> je (mb_indcs P)
              \<and> rcon = dc \<and> orb_epsi P B (CC_yshear P S B i) = 0
            \<longrightarrow> u0' (B, v, k, jj, i) = a (A, v, k, j, i))"
proof -
  let ?J = "orb_joffset P B (CC_yshear P S B i)"
  let ?e = "orb_epsi P B (CC_yshear P S B i)"
  let ?u0s = "UnpackCC_gather P S E ob' u0 (B, v, k, i) ?J"
  let ?flx = "orb_flux E rcon (js (mb_indcs P)) (je (mb_indcs P) + 1) ?e ?u0s
                (scr_q1 E (B, v, k, i)) (scr_flx E (B, v, k, i))"
  let ?s = "jj - ?J"
  have buf: "vars (recvbuf_orb ob' ((n + 1) mod 2))
           (B, v, k - ks (mb_indcs P), j - orb_jl P S n, i - is' (mb_indcs P)) = a (A, v, k, j, i)"
    unfolding PackAndSendCC_Orb_recvbuf [OF pack] B(1)
    by (rule PackCC_kernel_delivers [OF A n v nb uniq k j i])
  have load: "UnpackCC_load P S ob' u0 B v k i ?J jj
      = vars (recvbuf_orb ob' ((n + 1) mod 2))
           (B, v, k - ks (mb_indcs P), j - orb_jl P S n, i - is' (mb_indcs P))"
  proof (cases "n = 0")
    case True
    have "je (mb_indcs P) + 1 \<le> ?s" using src j True by simp
    then have "\<not> ?s < js (mb_indcs P)" "\<not> ?s < je (mb_indcs P) + 1" using g by simp_all
    moreover have "?s - (je (mb_indcs P) + 1) = j - orb_jl P S n" using src True by simp
    ultimately show ?thesis unfolding UnpackCC_load_def using True by simp
  next
    case False
    then have n1: "n = 1" using n by simp
    have "?s = (j - orb_jl P S n) - maxjshift S" using src False by simp
    moreover have "j - orb_jl P S n \<le> ng (mb_indcs P) + maxjshift S - 1"
      using j n1 by (simp add: orb_jl_def orb_ju_def)
    ultimately have lt: "?s < js (mb_indcs P)" and eq: "?s + maxjshift S = j - orb_jl P S n"
      using g by simp_all
    show ?thesis unfolding UnpackCC_load_def using lt eq n1 by simp
  qed
  have gather: "?u0s jj = a (A, v, k, j, i)"
    using jj by (simp add: UnpackCC_gather_at load buf)
  have ker: "u0' = UnpackCC_kernel P S E rcon ob' nvar u0"
    using RecvAndUnpackCC_Orb_returned [OF unpack] by simp
  have cell: "u0' (B, v, k, jj, i) = a (A, v, k, j, i) - (?flx (jj + 1) - ?flx jj)"
    if "js (mb_indcs P) \<le> jj" "jj \<le> je (mb_indcs P)"
    unfolding ker UnpackCC_kernel_column [OF B(2,3) v k i]
    using that gather by (simp add: UnpackCC_team_def Let_def UnpackCC_apply_at)
  have whole: "?flx (jj + 1) - ?flx jj = 0"
    if "js (mb_indcs P) \<le> jj" "jj \<le> je (mb_indcs P)" "rcon = dc" "?e = 0"
    using that by (simp add: orb_flux_def DonorCell_zero)
  show ?thesis using gather cell whole by simp
qed

lemma isend_ok: "\<not> isend_fails P transport_ok"
  by (simp add: isend_fails_def transport_ok_def)

lemma pack2_ex_facts:
  "nmb_thispack pack2_ex = 2" "my_rank pack2_ex = 0" "mb_indcs pack2_ex = indcs2_ex"
  "mb_gid pack2_ex 0 = 4" "dx2 (mb_size pack2_ex m) = 1"
  "nghbr pack2_ex m (orb_nnghbr n) = \<lparr>gid = 4 + (1 - m), lev = 0, rank = 0, dest = 0\<rparr>"
  by (simp_all add: pack2_ex_def pack_ex_def size2_ex_def orb_nnghbr_def)

lemma yshear2_ex:
  "CC_yshear pack2_ex shear2_ex m 1 = 1" "CC_yshear pack2_ex shear2_ex m 2 = - 1"
  by (simp_all add: CC_yshear_def orb_yshear_def CC_x1v_def pack2_ex_def pack_ex_def shear2_ex_def
      indcs2_ex_def size2_ex_def fl_exact_values)

lemma static_cast_int_of_int: "static_cast_int (real_of_int n) = n"
  by (simp add: static_cast_int_def)

lemma offsets2_ex:
  "orb_joffset pack2_ex m 1 = 1" "orb_joffset pack2_ex m (- 1) = - 1"
  "orb_epsi pack2_ex m 1 = 0" "orb_epsi pack2_ex m (- 1) = 0"
  using static_cast_int_of_int [of 1] static_cast_int_of_int [of "- 1"]
  by (simp_all add: orb_joffset_def orb_epsi_def fmod_def pack2_ex_facts fl_exact_values fl_zero)

text \<open>The pack step writes entries of the receive buffers and leaves their extents.\<close>

lemma PackAndSendCC_Orb_extent:
  assumes "PackAndSendCC_Orb P S T a nvar ob = Returned st ob'"
  shows "vars_extent (recvbuf_orb ob' dn) = vars_extent (recvbuf_orb ob dn)"
proof -
  let ?rd = "\<lambda>ob. vars_extent (recvbuf_orb ob dn)"
  have cell: "?rd (PackCC_cell P S a m n v idx s) = ?rd s" for m n v idx s
    by (simp add: PackCC_cell_def Let_def rbuf_vars_set_def sbuf_vars_set_def)
  have team: "?rd (PackCC_team P S a nvar r s) = ?rd s" for r s
    unfolding PackCC_team_def Let_def
    using fold_preserves [where rd = ?rd and f = "PackCC_cell P S a m n v" for m n v] cell
    by simp
  have "?rd (PackCC_kernel P S a nvar ob) = ?rd ob"
    unfolding PackCC_kernel_def Let_def
    by (rule fold_preserves [where rd = ?rd and f = "PackCC_team P S a nvar"]) (rule team)
  then show ?thesis unfolding PackAndSendCC_Orb_recvbuf [OF assms] .
qed

lemma CC_teams2_ex: "t \<in> set (CC_teams pack2_ex 1) \<longleftrightarrow>
    (\<exists>m i. t = (m, 0, 0, i) \<and> (m = 0 \<or> m = 1) \<and> (i = 1 \<or> i = 2))"
proof -
  have "{0..1::int} = {0, 1}" "{1..2::int} = {1, 2}" by auto
  then show ?thesis
    by (cases t) (auto simp: CC_teams_def set_range4 pack2_ex_facts indcs2_ex_def)
qed

text \<open>Every team of the unpack kernel of the example has defined behaviour: the shift is one
  cell, and the receive buffers hold two layers.\<close>

lemma UnpackCC_defined2_ex:
  assumes "\<And>dn. vars_extent (recvbuf_orb ob dn) = (2, 2, 3, 2, 4)"
    and "t \<in> set (CC_teams pack2_ex 1)"
  shows "UnpackCC_defined pack2_ex shear2_ex ob t"
proof -
  obtain m i where t: "t = (m, 0, 0, i)" "m = 0 \<or> m = 1" "i = 1 \<or> i = 2"
    using assms(2) unfolding CC_teams2_ex by blast
  have l: "[1..2::int] = [1, 2]" by (simp add: upto.simps)
  have s: "{0..3::int} = {0, 1, 2, 3}" by auto
  have ms: "maxjshift shear2_ex = 1" by (simp add: shear2_ex_def)
  show ?thesis
  proof (cases "i = 1")
    case True
    have ok: "\<forall>jj \<in> {0..3}. orb_load_ok pack2_ex shear2_ex ob m 0 0 1 1 jj"
      using t(2) unfolding s
      by (auto simp: orb_load_ok_def in_extent_def assms(1) ms pack2_ex_facts indcs2_ex_def)
    show ?thesis
      unfolding UnpackCC_defined_def t(1) prod.case True
      using ok
      by (simp add: Let_def yshear2_ex offsets2_ex pack2_ex_facts fl_exact_values int_range_def
          indcs2_ex_def l)
  next
    case False
    then have i: "i = 2" using t(3) by simp
    have ok: "\<forall>jj \<in> {0..3}. orb_load_ok pack2_ex shear2_ex ob m 0 0 2 (- 1) jj"
      using t(2) unfolding s
      by (auto simp: orb_load_ok_def in_extent_def assms(1) ms pack2_ex_facts indcs2_ex_def)
    show ?thesis
      unfolding UnpackCC_defined_def t(1) prod.case i
      using ok
      by (simp add: Let_def yshear2_ex offsets2_ex pack2_ex_facts fl_exact_values int_range_def
          indcs2_ex_def l)
  qed
qed

theorem pack_unpack_roundtrip_witness:
  "\<exists>ob' u0'.
     PackAndSendCC_Orb pack2_ex shear2_ex transport_ok u2_ex 1 orbbuf_ex = Returned complete ob'
     \<and> RecvAndUnpackCC_Orb pack2_ex shear2_ex transport_ok env_ex dc ob' 1 u2_ex
         = Returned complete u0'
     \<and> UnpackCC_defined pack2_ex shear2_ex ob' (0, 0, 0, 1)
     \<and> UnpackCC_defined pack2_ex shear2_ex ob' (1, 0, 0, 2)
     \<and> u0' (1, 0, 0, 2, 2) = u2_ex (0, 0, 0, 1, 2)
     \<and> u2_ex (0, 0, 0, 1, 2) = 12 \<and> u2_ex (1, 0, 0, 2, 2) = 122
     \<and> u0' (0, 0, 0, 1, 1) = u2_ex (1, 0, 0, 2, 1)
     \<and> u2_ex (1, 0, 0, 2, 1) = 121 \<and> u2_ex (0, 0, 0, 1, 1) = 11"
proof -
  obtain ob' where p:
    "PackAndSendCC_Orb pack2_ex shear2_ex transport_ok u2_ex 1 orbbuf_ex = Returned complete ob'"
    unfolding PackAndSendCC_Orb_outcome by (simp add: isend_ok)
  obtain u0' where u:
    "RecvAndUnpackCC_Orb pack2_ex shear2_ex transport_ok env_ex dc ob' 1 u2_ex = Returned complete u0'"
    unfolding RecvAndUnpackCC_Orb_def by (simp add: orb_test_all_ok)
  have ext: "vars_extent (recvbuf_orb ob' dn) = (2, 2, 3, 2, 4)" for dn
    unfolding PackAndSendCC_Orb_extent [OF p] by (simp add: orbbuf_ex_def buf_ex_def)
  have d: "\<forall>t \<in> set (CC_teams pack2_ex 1). UnpackCC_defined pack2_ex shear2_ex ob' t"
    using UnpackCC_defined2_ex [OF ext] by blast
  have jl: "orb_jl pack2_ex shear2_ex n = 1" "orb_ju pack2_ex shear2_ex n = 2"
    "maxjshift shear2_ex = 1" for n
    by (simp_all add: orb_jl_def orb_ju_def pack2_ex_facts indcs2_ex_def shear2_ex_def)
  have down: "u0' (1, 0, 0, 2, 2) = u2_ex (0, 0, 0, 1, 2)"
    using pack_unpack_roundtrip [OF p u d, where A = 0 and n = 0 and v = 0 and B = 1 and k = 0
        and j = 1 and i = 2 and jj = 2]
    by (simp add: Let_def pack2_ex_facts yshear2_ex offsets2_ex jl indcs2_ex_def)
  have up: "u0' (0, 0, 0, 1, 1) = u2_ex (1, 0, 0, 2, 1)"
    using pack_unpack_roundtrip [OF p u d, where A = 1 and n = 1 and v = 0 and B = 0 and k = 0
        and j = 2 and i = 1 and jj = 1]
    by (simp add: Let_def pack2_ex_facts yshear2_ex offsets2_ex jl indcs2_ex_def)
  have "(0, 0, 0, 1) \<in> set (CC_teams pack2_ex 1)" "(1, 0, 0, 2) \<in> set (CC_teams pack2_ex 1)"
    unfolding CC_teams2_ex by simp_all
  then have "UnpackCC_defined pack2_ex shear2_ex ob' (0, 0, 0, 1)"
    "UnpackCC_defined pack2_ex shear2_ex ob' (1, 0, 0, 2)"
    using d by blast+
  then show ?thesis using p u down up by (simp add: u2_ex_def)
qed

end
